theory Spec2Isabelle
  imports Main
begin

section \<open>Auto-configuration handlers of http/autoconf.go\<close>

text \<open>
  The file http/autoconf.go holds four HTTP handlers. Three of them are embedded here:
  \<^item> autoconfHandle (Thunderbird autoconfig),
  \<^item> autodiscoverHandle (Microsoft Autodiscover),
  \<^item> mobileconfigHandle (Apple device profile).

  Go strings are byte sequences and so are HOL strings. A Go \<open>error\<close> is represented by
  its message (the result of \<open>err.Error()\<close>); a function returning \<open>(T, error)\<close> that lives
  outside the file returns \<open>error + T\<close>, with \<open>Inl\<close> for the error. The two closures of the
  file that return a string together with an error keep Go's shape: a tuple whose last
  component is \<open>None\<close> for a nil error.

  Debug logging (\<open>log.Debug\<close>, \<open>log.Check\<close>) is not part of the embedding.
\<close>

type_synonym error = string

subsection \<open>Types declared in other packages\<close>

text \<open>dns.Domain, with the two fields the handlers read and write.\<close>

record dns_Domain =
  ASCII :: string
  Unicode :: string

text \<open>smtp.Address; the handlers read its field Domain only.\<close>

record smtp_Address =
  Domain :: dns_Domain

text \<open>
  Modelled from the spec: the declaration of admin.TLSMode is not among the sources. The
  spec gives it as the enumeration Immediate, StartTLS, None; the names of the three
  constants are the ones the handlers use. Go enumerations are integer types, so a value
  can lie outside the declared constants: \<open>TLSModeOther n\<close> stands for any such value
  (this is what the \<open>default\<close> branches of the handlers' switches receive).
\<close>

datatype TLSMode = TLSModeImmediate | TLSModeSTARTTLS | TLSModeNone | TLSModeOther nat

text \<open>
  The result of admin.ClientConfigDomain: one endpoint for IMAP and one for Submission.
  The two structs are declared outside the sources; their fields are those the handlers
  read, and the name Endpoint is the spec's.
\<close>

record Endpoint =
  Host :: dns_Domain
  Port :: int
  TLSMode :: TLSMode
  EnabledOnHTTPS :: bool

record ClientConfig =
  IMAP :: Endpoint
  Submission :: Endpoint

subsection \<open>Types declared in http/autoconf.go\<close>

record xml_Name =
  Space :: string
  Local :: string

record incomingServer =
  Type :: string
  Hostname :: string
  Port :: int
  SocketType :: string
  Username :: string
  Authentication :: string

record outgoingServer =
  Type :: string
  Hostname :: string
  Port :: int
  SocketType :: string
  Username :: string
  Authentication :: string

text \<open>The two anonymous structs nested in autoconfigResponse.\<close>

record EmailProvider =
  ID :: string
  Domain :: string
  DisplayName :: string
  DisplayShortName :: string
  IncomingServers :: "incomingServer list"
  OutgoingServers :: "outgoingServer list"

record ClientConfigUpdate =
  URL :: string

record autoconfigResponse =
  XMLName :: xml_Name
  Version :: string
  EmailProvider :: EmailProvider
  ClientConfigUpdate :: ClientConfigUpdate

text \<open>The anonymous struct nested in autodiscoverRequest.\<close>

record autodiscoverRequest_Request =
  EmailAddress :: string
  AcceptableResponseSchema :: string

record autodiscoverRequest =
  XMLName :: xml_Name
  Request :: autodiscoverRequest_Request

record autodiscoverProtocol =
  Type :: string
  Server :: string
  Port :: int
  DirectoryPort :: int
  ReferralPort :: int
  LoginName :: string
  SSL :: string
  Encryption :: string
  SPA :: string
  AuthRequired :: string

record autodiscoverAccount =
  AccountType :: string
  Action :: string
  Protocol :: "autodiscoverProtocol list"

text \<open>The anonymous struct nested in autodiscoverResponse.\<close>

record autodiscoverResponse_Response =
  XMLName :: xml_Name
  Account :: autodiscoverAccount

record autodiscoverResponse =
  XMLName :: xml_Name
  Response :: autodiscoverResponse_Response

subsection \<open>The HTTP request and the response writer\<close>

text \<open>
  Of http.Request the handlers use the method, the host, the form values
  (\<open>r.FormValue(key)\<close>, the empty string for an absent key) and the body.
\<close>

record http_Request =
  Method :: string
  Host :: string
  FormValue :: "string \<Rightarrow> string"
  Body :: string

text \<open>
  What a handler writes is a sequence of chunks: plain text, one of the two XML documents
  handed to the XML encoder, or raw bytes.
\<close>

datatype Chunk =
  Text string
| AutoconfigXML autoconfigResponse
| AutodiscoverXML autodiscoverResponse
| Bytes string

text \<open>
  http.ResponseWriter: the header map, the status code (\<open>None\<close> as long as no header has
  been sent) and the chunks written so far.
\<close>

record http_ResponseWriter =
  Header :: "string \<rightharpoonup> string"
  Status :: "int option"
  Output :: "Chunk list"

definition newResponseWriter :: http_ResponseWriter where
  "newResponseWriter = \<lparr>Header = Map.empty, Status = None, Output = []\<rparr>"

definition Set :: "http_ResponseWriter \<Rightarrow> string \<Rightarrow> string \<Rightarrow> http_ResponseWriter" where
  "Set w k v = w\<lparr>Header := (Header w)(k \<mapsto> v)\<rparr>"

definition Del :: "http_ResponseWriter \<Rightarrow> string \<Rightarrow> http_ResponseWriter" where
  "Del w k = w\<lparr>Header := (Header w)(k := None)\<rparr>"

text \<open>Only the first status code counts; a write without one sends 200.\<close>

definition WriteHeader :: "http_ResponseWriter \<Rightarrow> int \<Rightarrow> http_ResponseWriter" where
  "WriteHeader w code = (case Status w of None \<Rightarrow> w\<lparr>Status := Some code\<rparr> | Some _ \<Rightarrow> w)"

definition Write :: "http_ResponseWriter \<Rightarrow> Chunk \<Rightarrow> http_ResponseWriter" where
  "Write w c = (let w' = WriteHeader w 200 in w'\<lparr>Output := Output w' @ [c]\<rparr>)"

definition StatusBadRequest :: int where
  "StatusBadRequest = 400"

definition StatusMethodNotAllowed :: int where
  "StatusMethodNotAllowed = 405"

text \<open>http.Error: a plain-text reply with the given status code.\<close>

definition http_Error :: "http_ResponseWriter \<Rightarrow> string \<Rightarrow> int \<Rightarrow> http_ResponseWriter" where
  "http_Error w msg code =
     (let h1 = Del w ''Content-Length'';
          h2 = Set h1 ''Content-Type'' ''text/plain; charset=utf-8'';
          h3 = Set h2 ''X-Content-Type-Options'' ''nosniff'';
          h4 = WriteHeader h3 code
      in Write h4 (Text (msg @ ''\<newline>'')))"

definition xml_Header :: string where
  "xml_Header = ''<?xml version='' @ [CHR 0x22] @ ''1.0'' @ [CHR 0x22] @ '' encoding=''
     @ [CHR 0x22] @ ''UTF-8'' @ [CHR 0x22] @ ''?>\<newline>''"

subsection \<open>Functions of package strings\<close>

definition TrimPrefix :: "string \<Rightarrow> string \<Rightarrow> string" where
  "TrimPrefix s prefix =
     (if take (length prefix) s = prefix then drop (length prefix) s else s)"

text \<open>
  ReplaceAll and Split for a non-empty pattern: matches are taken from left to right and do
  not overlap. The handlers pass the patterns ".", "@" and ","; Go's special treatment of an
  empty pattern is not modelled (the string is then left as it is).
\<close>

fun ReplaceAll :: "string \<Rightarrow> string \<Rightarrow> string \<Rightarrow> string" where
  "ReplaceAll [] old new = []"
| "ReplaceAll (c # cs) old new =
     (if old \<noteq> [] \<and> take (length old) (c # cs) = old
      then new @ ReplaceAll (drop (length old - 1) cs) old new
      else c # ReplaceAll cs old new)"

fun SplitFrom :: "string \<Rightarrow> string \<Rightarrow> string \<Rightarrow> string list" where
  "SplitFrom acc [] sep = [rev acc]"
| "SplitFrom acc (c # cs) sep =
     (if sep \<noteq> [] \<and> take (length sep) (c # cs) = sep
      then rev acc # SplitFrom [] (drop (length sep - 1) cs) sep
      else SplitFrom (c # acc) cs sep)"

definition Split :: "string \<Rightarrow> string \<Rightarrow> string list" where
  "Split s sep = SplitFrom [] s sep"

subsection \<open>Process state and the functions the handlers call\<close>

text \<open>
  The two package-level counter vectors, each a map from the value of the label "domain"
  to a count; \<open>Inc vec l\<close> is \<open>vec.WithLabelValues(l).Inc()\<close>. The field \<open>bodyDecodes\<close> is
  a ghost counter: it counts the calls that decode the request body.
\<close>

record Globals =
  metricAutoconf :: "string \<Rightarrow> nat"
  metricAutodiscover :: "string \<Rightarrow> nat"
  bodyDecodes :: nat

definition Inc :: "(string \<Rightarrow> nat) \<Rightarrow> string \<Rightarrow> (string \<Rightarrow> nat)" where
  "Inc vec l = vec(l := vec l + 1)"

text \<open>
  The functions of other packages and files that the handlers call are parameters:
  dns.ParseDomain, smtp.ParseAddress, admin.ClientConfigDomain, MobileConfig (of the same
  package, in another file), the XML decoding of the request body into an
  autodiscoverRequest, and the text that the verb \<open>%v\<close> of package fmt prints for a TLSMode.
\<close>

record Env =
  ParseDomain :: "string \<Rightarrow> error + dns_Domain"
  ParseAddress :: "string \<Rightarrow> error + smtp_Address"
  ClientConfigDomain :: "dns_Domain \<Rightarrow> error + ClientConfig"
  MobileConfig :: "string list \<Rightarrow> string \<Rightarrow> error + string"
  Decode :: "string \<Rightarrow> error + autodiscoverRequest"
  FormatTLSMode :: "TLSMode \<Rightarrow> string"

subsection \<open>autoconfHandle\<close>

text \<open>The closure \<open>socketType\<close> of autoconfHandle.\<close>

definition socketType :: "Env \<Rightarrow> TLSMode \<Rightarrow> string \<times> error option" where
  "socketType env tlsMode =
     (case tlsMode of
        TLSModeImmediate \<Rightarrow> (''SSL'', None)
      | TLSModeSTARTTLS \<Rightarrow> (''STARTTLS'', None)
      | TLSModeNone \<Rightarrow> (''plain'', None)
      | TLSModeOther n \<Rightarrow> ('''', Some (''unknown tls mode '' @ FormatTLSMode env tlsMode)))"

text \<open>
  The first block of the handler: from the form value "emailaddress" and the request host
  to the display identity \<open>email\<close> and the domain. \<open>Inl\<close> is the early return, with the
  response written.
\<close>

definition autoconfNormalize ::
  "Env \<Rightarrow> http_ResponseWriter \<Rightarrow> http_Request \<Rightarrow> http_ResponseWriter + (string \<times> dns_Domain)" where
  "autoconfNormalize env w r =
     (let email = FormValue r ''emailaddress'' in
      if email = '''' then
        (let email = ''%EMAILADDRESS%'' in
         case ParseDomain env (http_Request.Host r) of
           Inl err \<Rightarrow>
             Inl (http_Error w (''400 - bad request - invalid domain: '' @ http_Request.Host r)
                    StatusBadRequest)
         | Inr domain \<Rightarrow>
             (let domain = domain\<lparr>ASCII := TrimPrefix (ASCII domain) ''autoconfig.''\<rparr>;
                  domain = domain\<lparr>Unicode := TrimPrefix (Unicode domain) ''autoconfig.''\<rparr>
              in Inr (email, domain)))
      else
        (case ParseAddress env email of
           Inl err \<Rightarrow>
             Inl (http_Error w ''400 - bad request - invalid parameter emailaddress''
                    StatusBadRequest)
         | Inr addr \<Rightarrow> Inr (email, smtp_Address.Domain addr)))"

text \<open>The response document, built after the configuration has been resolved.\<close>

definition autoconfDocument ::
  "Env \<Rightarrow> string \<Rightarrow> dns_Domain \<Rightarrow> ClientConfig \<Rightarrow> string \<Rightarrow> string \<Rightarrow> autoconfigResponse" where
  "autoconfDocument env email domain config imapTLS submissionTLS =
     (let incoming = \<lparr>incomingServer.Type = ''imap'',
            incomingServer.Hostname = ASCII (Endpoint.Host (IMAP config)),
            incomingServer.Port = Endpoint.Port (IMAP config),
            incomingServer.SocketType = imapTLS,
            incomingServer.Username = email,
            incomingServer.Authentication = ''password-encrypted''\<rparr>;
          incomingServers = [] @ [incoming];
          incomingServers =
            (if EnabledOnHTTPS (IMAP config) then
               (let (tlsMode, _) = socketType env TLSModeImmediate;
                    incomingALPN = \<lparr>incomingServer.Type = ''imap'',
                      incomingServer.Hostname = ASCII (Endpoint.Host (IMAP config)),
                      incomingServer.Port = 443,
                      incomingServer.SocketType = tlsMode,
                      incomingServer.Username = email,
                      incomingServer.Authentication = ''password-encrypted''\<rparr>
                in incomingServers @ [incomingALPN])
             else incomingServers);
          outgoing = \<lparr>outgoingServer.Type = ''smtp'',
            outgoingServer.Hostname = ASCII (Endpoint.Host (Submission config)),
            outgoingServer.Port = Endpoint.Port (Submission config),
            outgoingServer.SocketType = submissionTLS,
            outgoingServer.Username = email,
            outgoingServer.Authentication = ''password-encrypted''\<rparr>;
          outgoingServers = [] @ [outgoing];
          outgoingServers =
            (if EnabledOnHTTPS (Submission config) then
               (let (tlsMode, _) = socketType env TLSModeImmediate;
                    outgoingALPN = \<lparr>outgoingServer.Type = ''smtp'',
                      outgoingServer.Hostname = ASCII (Endpoint.Host (Submission config)),
                      outgoingServer.Port = 443,
                      outgoingServer.SocketType = tlsMode,
                      outgoingServer.Username = email,
                      outgoingServer.Authentication = ''password-encrypted''\<rparr>
                in outgoingServers @ [outgoingALPN])
             else outgoingServers)
      in \<lparr>autoconfigResponse.XMLName = \<lparr>Space = '''', Local = ''''\<rparr>,
          Version = ''1.1'',
          EmailProvider = \<lparr>ID = ASCII domain,
            EmailProvider.Domain = ASCII domain,
            DisplayName = email,
            DisplayShortName = ASCII domain,
            IncomingServers = incomingServers,
            OutgoingServers = outgoingServers\<rparr>,
          ClientConfigUpdate =
            \<lparr>URL = ''https://autoconfig.'' @ ASCII domain @ ''/mail/config-v1.1.xml''\<rparr>\<rparr>)"

text \<open>
  The handler. The local \<open>addrDom\<close> is declared with Go's zero value, the empty string,
  and the handler has no assignment to it; the deferred function, which runs on every
  return, increments the counter at that label.
\<close>

definition autoconfHandle ::
  "Env \<Rightarrow> Globals \<Rightarrow> http_ResponseWriter \<Rightarrow> http_Request \<Rightarrow> Globals \<times> http_ResponseWriter" where
  "autoconfHandle env g w r =
     (let addrDom = '''';
          w' =
            (case autoconfNormalize env w r of
               Inl w1 \<Rightarrow> w1
             | Inr (email, domain) \<Rightarrow>
                 (case ClientConfigDomain env domain of
                    Inl err \<Rightarrow> http_Error w (''400 - bad request - '' @ err) StatusBadRequest
                  | Inr config \<Rightarrow>
                      (let (imapTLS, err) = socketType env (Endpoint.TLSMode (IMAP config));
                           (submissionTLS, err) =
                             (if err = None
                              then socketType env (Endpoint.TLSMode (Submission config))
                              else ('''', err))
                       in case err of
                            Some e \<Rightarrow> http_Error w (''400 - bad request - '' @ e) StatusBadRequest
                          | None \<Rightarrow>
                              (let resp = autoconfDocument env email domain config
                                            imapTLS submissionTLS;
                                   w1 = Set w ''Content-Type'' ''application/xml; charset=utf-8'';
                                   w2 = Write w1 (Text xml_Header)
                               in Write w2 (AutoconfigXML resp)))))
      in (g\<lparr>metricAutoconf := Inc (metricAutoconf g) addrDom\<rparr>, w'))"

subsection \<open>autodiscoverHandle\<close>

text \<open>The closure \<open>tlsmode\<close> of autodiscoverHandle: the fields "ssl" and "encryption".\<close>

definition tlsmode :: "Env \<Rightarrow> TLSMode \<Rightarrow> string \<times> string \<times> error option" where
  "tlsmode env tlsMode =
     (case tlsMode of
        TLSModeImmediate \<Rightarrow> (''on'', ''TLS'', None)
      | TLSModeSTARTTLS \<Rightarrow> (''on'', '''', None)
      | TLSModeNone \<Rightarrow> (''off'', '''', None)
      | TLSModeOther n \<Rightarrow> ('''', '''', Some (''unknown tls mode '' @ FormatTLSMode env tlsMode)))"

text \<open>The response document; the fields that the handler leaves out have Go's zero value.\<close>

definition autodiscoverDocument ::
  "autodiscoverRequest \<Rightarrow> ClientConfig \<Rightarrow> string \<Rightarrow> string \<Rightarrow> string \<Rightarrow> string
    \<Rightarrow> autodiscoverResponse" where
  "autodiscoverDocument req config imapSSL imapEncryption submissionSSL submissionEncryption =
     \<lparr>autodiscoverResponse.XMLName =
        \<lparr>Space = ''http://schemas.microsoft.com/exchange/autodiscover/responseschema/2006'',
         Local = ''Autodiscover''\<rparr>,
      Response =
        \<lparr>autodiscoverResponse_Response.XMLName =
           \<lparr>Space = ''http://schemas.microsoft.com/exchange/autodiscover/outlook/responseschema/2006a'',
            Local = ''Response''\<rparr>,
         Account =
           \<lparr>AccountType = ''email'',
            Action = ''settings'',
            Protocol =
              [\<lparr>autodiscoverProtocol.Type = ''IMAP'',
                Server = ASCII (Endpoint.Host (IMAP config)),
                autodiscoverProtocol.Port = Endpoint.Port (IMAP config),
                DirectoryPort = 0,
                ReferralPort = 0,
                LoginName = EmailAddress (Request req),
                SSL = imapSSL,
                Encryption = imapEncryption,
                SPA = ''off'',
                AuthRequired = ''on''\<rparr>,
               \<lparr>autodiscoverProtocol.Type = ''SMTP'',
                Server = ASCII (Endpoint.Host (Submission config)),
                autodiscoverProtocol.Port = Endpoint.Port (Submission config),
                DirectoryPort = 0,
                ReferralPort = 0,
                LoginName = EmailAddress (Request req),
                SSL = submissionSSL,
                Encryption = submissionEncryption,
                SPA = ''off'',
                AuthRequired = ''on''\<rparr>]\<rparr>\<rparr>\<rparr>"

text \<open>
  The handler. As in autoconfHandle, \<open>addrDom\<close> is never assigned. The body is decoded
  only after the method check; the ghost counter records the call.
\<close>

definition autodiscoverHandle ::
  "Env \<Rightarrow> Globals \<Rightarrow> http_ResponseWriter \<Rightarrow> http_Request \<Rightarrow> Globals \<times> http_ResponseWriter" where
  "autodiscoverHandle env g w r =
     (let addrDom = '''';
          (g', w') =
            (if Method r \<noteq> ''POST'' then
               (g, http_Error w ''405 - method not allowed - post required''
                     StatusMethodNotAllowed)
             else
               (let g1 = g\<lparr>bodyDecodes := bodyDecodes g + 1\<rparr> in
                case Decode env (Body r) of
                  Inl err \<Rightarrow>
                    (g1, http_Error w
                           (''400 - bad request - parsing autodiscover request: '' @ err)
                           StatusMethodNotAllowed)
                | Inr req \<Rightarrow>
                    (case ParseAddress env (EmailAddress (Request req)) of
                       Inl err \<Rightarrow>
                         (g1, http_Error w ''400 - bad request - invalid parameter emailaddress''
                                StatusBadRequest)
                     | Inr addr \<Rightarrow>
                         (case ClientConfigDomain env (smtp_Address.Domain addr) of
                            Inl err \<Rightarrow>
                              (g1, http_Error w (''400 - bad request - '' @ err) StatusBadRequest)
                          | Inr config \<Rightarrow>
                              (let (imapSSL, imapEncryption, err) =
                                     tlsmode env (Endpoint.TLSMode (IMAP config));
                                   (submissionSSL, submissionEncryption, err) =
                                     (if err = None
                                      then tlsmode env (Endpoint.TLSMode (Submission config))
                                      else ('''', '''', err))
                               in case err of
                                    Some e \<Rightarrow>
                                      (g1, http_Error w (''400 - bad request - '' @ e)
                                             StatusBadRequest)
                                  | None \<Rightarrow>
                                      (let w1 = Set w ''Content-Type''
                                                  ''application/xml; charset=utf-8'';
                                           resp = autodiscoverDocument req config imapSSL
                                                    imapEncryption submissionSSL
                                                    submissionEncryption;
                                           w2 = Write w1 (Text xml_Header)
                                       in (g1, Write w2 (AutodiscoverXML resp))))))))
      in (g'\<lparr>metricAutodiscover := Inc (metricAutodiscover g') addrDom\<rparr>, w'))"

subsection \<open>mobileconfigHandle\<close>

text \<open>
  Indexing a slice out of range panics in Go; the handler indexes \<open>l[0]\<close>, and the panic
  is a result of its own here.
\<close>

datatype Panic = IndexOutOfRange

definition mobileconfigHandle ::
  "Env \<Rightarrow> http_ResponseWriter \<Rightarrow> http_Request \<Rightarrow> Panic + http_ResponseWriter" where
  "mobileconfigHandle env w r =
     (if Method r \<noteq> ''GET'' then
        Inr (http_Error w ''405 - method not allowed - get required'' StatusMethodNotAllowed)
      else
        (let addresses = FormValue r ''addresses'';
             fullName = FormValue r ''name'';
             buf = [];
             err = None;
             err = (if addresses = '''' then Some ''missing/empty field addresses'' else err);
             l = Split addresses '','';
             (buf, err) =
               (if err = None
                then (case MobileConfig env l fullName of
                        Inl e \<Rightarrow> (buf, Some e)
                      | Inr b \<Rightarrow> (b, None))
                else (buf, err))
         in case err of
              Some e \<Rightarrow> Inr (http_Error w (''400 - bad request - '' @ e) StatusBadRequest)
            | None \<Rightarrow>
                (case l of
                   [] \<Rightarrow> Inl IndexOutOfRange
                 | filename # _ \<Rightarrow>
                     (let filename = ReplaceAll filename ''.'' ''-'';
                          filename = ReplaceAll filename ''@'' ''-at-'';
                          filename = ''email-account-'' @ filename @ ''.mobileconfig'';
                          w1 = Set w ''Content-Disposition''
                                 (''attachment; filename='' @ [CHR 0x22] @ filename @ [CHR 0x22])
                      in Inr (Write w1 (Bytes buf))))))"

subsection \<open>A sample environment\<close>

text \<open>
  The theorems below hold for every environment. To instantiate them at concrete requests,
  a small environment stands in for the packages outside the file; it answers for the
  inputs of the sample requests only.
  \<^item> Domains: a name with a trailing dot does not parse; the names used are lower-case, and
    for an ASCII name the Unicode form of a dns.Domain is empty. One name with a
    non-ASCII label is included (the label "b\<open>0xC3 0xBC\<close>cher" in UTF-8).
  \<^item> Addresses: one address for each of three domains. The domain https.example has both
    services on the HTTPS port as well; the configuration of broken.example carries a TLS
    mode outside the three constants.
  \<^item> Request bodies: for each address, the document with the elements Autodiscover,
    Request and EMailAddress decodes; the document cut after "<Autodiscover" is a syntax
    error; every other body is taken as not decodable.
  \<^item> The verb \<open>%v\<close> prints the integer value of a TLS mode in decimal: \<open>TLSModeOther n\<close>
    is printed as \<open>n\<close>, the three constants as 0, 1 and 2.
\<close>

fun showNat :: "nat \<Rightarrow> string" where
  "showNat n =
     (if n < 10 then [''0123456789'' ! n]
      else showNat (n div 10) @ [''0123456789'' ! (n mod 10)])"

declare showNat.simps [simp del]

definition mailHost :: dns_Domain where
  "mailHost = \<lparr>ASCII = ''mail.example.org'', Unicode = ''''\<rparr>"

definition exampleConfig :: ClientConfig where
  "exampleConfig =
     \<lparr>IMAP = \<lparr>Endpoint.Host = mailHost, Endpoint.Port = 993,
              TLSMode = TLSModeImmediate, EnabledOnHTTPS = False\<rparr>,
      Submission = \<lparr>Endpoint.Host = mailHost, Endpoint.Port = 587,
                    TLSMode = TLSModeSTARTTLS, EnabledOnHTTPS = False\<rparr>\<rparr>"

definition httpsConfig :: ClientConfig where
  "httpsConfig =
     \<lparr>IMAP = \<lparr>Endpoint.Host = mailHost, Endpoint.Port = 143,
              TLSMode = TLSModeNone, EnabledOnHTTPS = True\<rparr>,
      Submission = \<lparr>Endpoint.Host = mailHost, Endpoint.Port = 587,
                    TLSMode = TLSModeSTARTTLS, EnabledOnHTTPS = True\<rparr>\<rparr>"

definition brokenConfig :: ClientConfig where
  "brokenConfig =
     \<lparr>IMAP = \<lparr>Endpoint.Host = mailHost, Endpoint.Port = 993,
              TLSMode = TLSModeOther 7, EnabledOnHTTPS = False\<rparr>,
      Submission = \<lparr>Endpoint.Host = mailHost, Endpoint.Port = 587,
                    TLSMode = TLSModeSTARTTLS, EnabledOnHTTPS = False\<rparr>\<rparr>"

definition sampleDomain :: "string \<Rightarrow> dns_Domain" where
  "sampleDomain s = \<lparr>ASCII = s, Unicode = ''''\<rparr>"

definition sampleRequest :: "string \<Rightarrow> autodiscoverRequest" where
  "sampleRequest a =
     \<lparr>autodiscoverRequest.XMLName = \<lparr>Space = '''', Local = ''Autodiscover''\<rparr>,
      Request = \<lparr>EmailAddress = a, AcceptableResponseSchema = ''''\<rparr>\<rparr>"

definition sampleBody :: "string \<Rightarrow> string" where
  "sampleBody a =
     ''<Autodiscover><Request><EMailAddress>'' @ a @
     ''</EMailAddress></Request></Autodiscover>''"

definition sampleEnv :: Env where
  "sampleEnv =
     \<lparr>ParseDomain = (\<lambda>s.
        if s \<noteq> '''' \<and> last s = CHR ''.'' then Inl ''dns name has trailing dot''
        else if s = ''autoconfig.xn--bcher-kva.example''
          then Inr \<lparr>ASCII = s,
                    Unicode = ''autoconfig.b'' @ [CHR 0xC3, CHR 0xBC] @ ''cher.example''\<rparr>
        else Inr (sampleDomain s)),
      ParseAddress = (\<lambda>s.
        if s = ''user@example.org'' then Inr \<lparr>smtp_Address.Domain = sampleDomain ''example.org''\<rparr>
        else if s = ''user@https.example''
          then Inr \<lparr>smtp_Address.Domain = sampleDomain ''https.example''\<rparr>
        else if s = ''user@broken.example''
          then Inr \<lparr>smtp_Address.Domain = sampleDomain ''broken.example''\<rparr>
        else Inl ''invalid address''),
      ClientConfigDomain = (\<lambda>d.
        if ASCII d = ''example.org'' then Inr exampleConfig
        else if ASCII d = ''https.example'' then Inr httpsConfig
        else if ASCII d = ''broken.example'' then Inr brokenConfig
        else Inl ''domain not found''),
      MobileConfig = (\<lambda>l fullName.
        if l = [''user@example.org'', ''info@example.org''] then Inr ''profile''
        else Inl ''unknown address''),
      Decode = (\<lambda>b.
        if b = sampleBody ''user@example.org''
          then Inr (sampleRequest ''user@example.org'')
        else if b = sampleBody ''user@https.example''
          then Inr (sampleRequest ''user@https.example'')
        else if b = sampleBody ''user@broken.example''
          then Inr (sampleRequest ''user@broken.example'')
        else if b = ''<Autodiscover''
          then Inl ''XML syntax error on line 1: unexpected EOF''
        else Inl ''EOF''),
      FormatTLSMode = (\<lambda>m.
        case m of
          TLSModeImmediate \<Rightarrow> showNat 0
        | TLSModeSTARTTLS \<Rightarrow> showNat 1
        | TLSModeNone \<Rightarrow> showNat 2
        | TLSModeOther n \<Rightarrow> showNat n)\<rparr>"

definition noGlobals :: Globals where
  "noGlobals = \<lparr>metricAutoconf = (\<lambda>_. 0), metricAutodiscover = (\<lambda>_. 0), bodyDecodes = 0\<rparr>"

text \<open>A request with the given method, host, value of one form key, and body.\<close>

definition sampleHTTP :: "string \<Rightarrow> string \<Rightarrow> string \<Rightarrow> string \<Rightarrow> string \<Rightarrow> http_Request" where
  "sampleHTTP method host key val body =
     \<lparr>Method = method, http_Request.Host = host,
      FormValue = (\<lambda>k. if k = key then val else ''''), Body = body\<rparr>"

section \<open>Properties\<close>

subsection \<open>The response writer\<close>

lemma Status_http_Error: "Status w = None \<Longrightarrow> Status (http_Error w msg code) = Some code"
  by (simp add: http_Error_def Write_def WriteHeader_def Set_def Del_def Let_def)

lemma Output_http_Error:
  "Output (http_Error w msg code) = Output w @ [Text (msg @ ''\<newline>'')]"
  by (simp add: http_Error_def Write_def WriteHeader_def Set_def Del_def Let_def
      split: option.splits)

lemma Status_newResponseWriter: "Status newResponseWriter = None"
  by (simp add: newResponseWriter_def)

lemma Output_newResponseWriter: "Output newResponseWriter = []"
  by (simp add: newResponseWriter_def)

lemma Output_Write: "Output (Write w c) = Output w @ [c]"
  by (simp add: Write_def WriteHeader_def Let_def split: option.splits)

lemma Output_Set: "Output (Set w k v) = Output w"
  by (simp add: Set_def)

lemma Status_Write: "Status (Write w c) = Some (case Status w of None \<Rightarrow> 200 | Some s \<Rightarrow> s)"
  by (simp add: Write_def WriteHeader_def Let_def split: option.splits)

lemma Status_Set: "Status (Set w k v) = Status w"
  by (simp add: Set_def)

subsection \<open>The two vocabularies of the TLS mode\<close>

text \<open>
  Claim C1. For the three TLS modes, \<open>socketType\<close> (the Thunderbird vocabulary) returns
  "SSL" for Immediate, "STARTTLS" for StartTLS and "plain" for None, and \<open>tlsmode\<close> (the
  Microsoft vocabulary) returns the pairs ("on", "TLS"), ("on", "") and ("off", ""), each
  with a nil error. For a mode that is none of the three, both return a non-nil error,
  together with empty strings and no value of the vocabulary.
\<close>

theorem mapTLS_literals:
  "socketType env TLSModeImmediate = (''SSL'', None) \<and>
   socketType env TLSModeSTARTTLS = (''STARTTLS'', None) \<and>
   socketType env TLSModeNone = (''plain'', None) \<and>
   tlsmode env TLSModeImmediate = (''on'', ''TLS'', None) \<and>
   tlsmode env TLSModeSTARTTLS = (''on'', '''', None) \<and>
   tlsmode env TLSModeNone = (''off'', '''', None) \<and>
   (\<forall>m. m \<notin> {TLSModeImmediate, TLSModeSTARTTLS, TLSModeNone} \<longrightarrow>
      (\<exists>e. socketType env m = ('''', Some e)) \<and> (\<exists>e. tlsmode env m = ('''', '''', Some e)))"
  by (auto simp: socketType_def tlsmode_def split: TLSMode.splits)

theorem mapTLS_literals_witness:
  "TLSModeOther 7 \<notin> {TLSModeImmediate, TLSModeSTARTTLS, TLSModeNone} \<and>
   socketType sampleEnv (TLSModeOther 7) = ('''', Some ''unknown tls mode 7'') \<and>
   tlsmode sampleEnv (TLSModeOther 7) = ('''', '''', Some ''unknown tls mode 7'')"
proof -
  have h: "TLSModeOther 7 \<notin> {TLSModeImmediate, TLSModeSTARTTLS, TLSModeNone}" by simp
  from mapTLS_literals [of sampleEnv] h
  have "(\<exists>e. socketType sampleEnv (TLSModeOther 7) = ('''', Some e)) \<and>
        (\<exists>e. tlsmode sampleEnv (TLSModeOther 7) = ('''', '''', Some e))"
    by blast
  then show ?thesis using h by (simp add: socketType_def tlsmode_def sampleEnv_def showNat.simps)
qed

subsection \<open>The paths of autoconfHandle\<close>

lemma autoconfNormalize_Inl:
  "autoconfNormalize env w r = Inl w1 \<Longrightarrow> \<exists>msg. w1 = http_Error w msg StatusBadRequest"
  by (auto simp: autoconfNormalize_def Let_def split: if_splits sum.splits)

lemma autoconfHandle_fst:
  "fst (autoconfHandle env g w r) = g\<lparr>metricAutoconf := Inc (metricAutoconf g) ''''\<rparr>"
  by (simp add: autoconfHandle_def Let_def)

lemma autoconfHandle_early:
  "autoconfNormalize env w r = Inl w1 \<Longrightarrow> snd (autoconfHandle env g w r) = w1"
  by (simp add: autoconfHandle_def Let_def)

lemma autoconfHandle_unresolved:
  "autoconfNormalize env w r = Inr (email, domain) \<Longrightarrow> ClientConfigDomain env domain = Inl err \<Longrightarrow>
   snd (autoconfHandle env g w r) = http_Error w (''400 - bad request - '' @ err) StatusBadRequest"
  by (simp add: autoconfHandle_def Let_def)

lemma autoconfHandle_unknown_imap:
  "autoconfNormalize env w r = Inr (email, domain) \<Longrightarrow> ClientConfigDomain env domain = Inr config \<Longrightarrow>
   socketType env (Endpoint.TLSMode (IMAP config)) = (s, Some e) \<Longrightarrow>
   snd (autoconfHandle env g w r) = http_Error w (''400 - bad request - '' @ e) StatusBadRequest"
  by (simp add: autoconfHandle_def Let_def)

lemma autoconfHandle_unknown_submission:
  "autoconfNormalize env w r = Inr (email, domain) \<Longrightarrow> ClientConfigDomain env domain = Inr config \<Longrightarrow>
   socketType env (Endpoint.TLSMode (IMAP config)) = (imapTLS, None) \<Longrightarrow>
   socketType env (Endpoint.TLSMode (Submission config)) = (s, Some e) \<Longrightarrow>
   snd (autoconfHandle env g w r) = http_Error w (''400 - bad request - '' @ e) StatusBadRequest"
  by (simp add: autoconfHandle_def Let_def)

lemma autoconfHandle_document:
  "autoconfNormalize env w r = Inr (email, domain) \<Longrightarrow> ClientConfigDomain env domain = Inr config \<Longrightarrow>
   socketType env (Endpoint.TLSMode (IMAP config)) = (imapTLS, None) \<Longrightarrow>
   socketType env (Endpoint.TLSMode (Submission config)) = (submissionTLS, None) \<Longrightarrow>
   snd (autoconfHandle env g w r) =
     Write (Write (Set w ''Content-Type'' ''application/xml; charset=utf-8'') (Text xml_Header))
       (AutoconfigXML (autoconfDocument env email domain config imapTLS submissionTLS))"
  by (simp add: autoconfHandle_def Let_def)

lemma socketType_known:
  "m \<in> {TLSModeImmediate, TLSModeSTARTTLS, TLSModeNone} \<Longrightarrow> snd (socketType env m) = None"
  by (auto simp: socketType_def)

lemma OutgoingServers_autoconfDocument:
  "OutgoingServers (EmailProvider (autoconfDocument env email domain config imapTLS submissionTLS)) =
     \<lparr>outgoingServer.Type = ''smtp'',
      outgoingServer.Hostname = ASCII (Endpoint.Host (Submission config)),
      outgoingServer.Port = Endpoint.Port (Submission config),
      outgoingServer.SocketType = submissionTLS,
      outgoingServer.Username = email,
      outgoingServer.Authentication = ''password-encrypted''\<rparr> #
     (if EnabledOnHTTPS (Submission config)
      then [\<lparr>outgoingServer.Type = ''smtp'',
             outgoingServer.Hostname = ASCII (Endpoint.Host (Submission config)),
             outgoingServer.Port = 443,
             outgoingServer.SocketType = ''SSL'',
             outgoingServer.Username = email,
             outgoingServer.Authentication = ''password-encrypted''\<rparr>]
      else [])"
  by (simp add: autoconfDocument_def Let_def socketType_def)

lemma IncomingServers_autoconfDocument:
  "IncomingServers (EmailProvider (autoconfDocument env email domain config imapTLS submissionTLS)) =
     \<lparr>incomingServer.Type = ''imap'',
      incomingServer.Hostname = ASCII (Endpoint.Host (IMAP config)),
      incomingServer.Port = Endpoint.Port (IMAP config),
      incomingServer.SocketType = imapTLS,
      incomingServer.Username = email,
      incomingServer.Authentication = ''password-encrypted''\<rparr> #
     (if EnabledOnHTTPS (IMAP config)
      then [\<lparr>incomingServer.Type = ''imap'',
             incomingServer.Hostname = ASCII (Endpoint.Host (IMAP config)),
             incomingServer.Port = 443,
             incomingServer.SocketType = ''SSL'',
             incomingServer.Username = email,
             incomingServer.Authentication = ''password-encrypted''\<rparr>]
      else [])"
  by (simp add: autoconfDocument_def Let_def socketType_def)

lemma autoconfHandle_cases:
  "(\<exists>msg. snd (autoconfHandle env g w r) = http_Error w msg StatusBadRequest) \<or>
   (\<exists>email domain config imapTLS submissionTLS.
      autoconfNormalize env w r = Inr (email, domain) \<and>
      ClientConfigDomain env domain = Inr config \<and>
      socketType env (Endpoint.TLSMode (IMAP config)) = (imapTLS, None) \<and>
      socketType env (Endpoint.TLSMode (Submission config)) = (submissionTLS, None) \<and>
      snd (autoconfHandle env g w r) =
        Write (Write (Set w ''Content-Type'' ''application/xml; charset=utf-8'') (Text xml_Header))
          (AutoconfigXML (autoconfDocument env email domain config imapTLS submissionTLS)))"
proof (cases "autoconfNormalize env w r")
  case (Inl w1)
  then show ?thesis
    using autoconfNormalize_Inl [OF Inl] autoconfHandle_early [OF Inl] by auto
next
  case (Inr p)
  obtain email domain where p: "p = (email, domain)" by (cases p)
  note n = Inr [unfolded p]
  show ?thesis
  proof (cases "ClientConfigDomain env domain")
    case (Inl err)
    then show ?thesis using autoconfHandle_unresolved [OF n Inl] by blast
  next
    case c: (Inr config)
    obtain imapTLS e1 where i: "socketType env (Endpoint.TLSMode (IMAP config)) = (imapTLS, e1)"
      by (cases "socketType env (Endpoint.TLSMode (IMAP config))")
    obtain submissionTLS e2
      where s: "socketType env (Endpoint.TLSMode (Submission config)) = (submissionTLS, e2)"
      by (cases "socketType env (Endpoint.TLSMode (Submission config))")
    show ?thesis
    proof (cases e1)
      case (Some e)
      then show ?thesis using autoconfHandle_unknown_imap [OF n c i [unfolded Some]] by blast
    next
      case None
      note i' = i [unfolded None]
      show ?thesis
      proof (cases e2)
        case (Some e)
        then show ?thesis
          using autoconfHandle_unknown_submission [OF n c i' s [unfolded Some]] by blast
      next
        case None
        then show ?thesis
          using autoconfHandle_document [OF n c i' s [unfolded None]] n c i' s by blast
      qed
    qed
  qed
qed

lemma socketType_unknown:
  "m \<notin> {TLSModeImmediate, TLSModeSTARTTLS, TLSModeNone} \<Longrightarrow>
   socketType env m = ('''', Some (''unknown tls mode '' @ FormatTLSMode env m))"
  by (cases m) (simp_all add: socketType_def)

subsection \<open>The paths of autodiscoverHandle\<close>

lemma tlsmode_unknown:
  "m \<notin> {TLSModeImmediate, TLSModeSTARTTLS, TLSModeNone} \<Longrightarrow>
   tlsmode env m = ('''', '''', Some (''unknown tls mode '' @ FormatTLSMode env m))"
  by (cases m) (simp_all add: tlsmode_def)

lemma tlsmode_known:
  "m \<in> {TLSModeImmediate, TLSModeSTARTTLS, TLSModeNone} \<Longrightarrow> snd (snd (tlsmode env m)) = None"
  by (auto simp: tlsmode_def)

lemma autodiscoverHandle_fst:
  "fst (autodiscoverHandle env g w r) =
     g\<lparr>bodyDecodes := (if Method r \<noteq> ''POST'' then bodyDecodes g else bodyDecodes g + 1),
       metricAutodiscover := Inc (metricAutodiscover g) ''''\<rparr>"
  by (simp add: autodiscoverHandle_def Let_def split_beta split: sum.split option.split)

lemma autodiscoverHandle_not_post:
  "Method r \<noteq> ''POST'' \<Longrightarrow>
   snd (autodiscoverHandle env g w r) =
     http_Error w ''405 - method not allowed - post required'' StatusMethodNotAllowed"
  by (simp add: autodiscoverHandle_def Let_def)

lemma autodiscoverHandle_bad_body:
  "Method r = ''POST'' \<Longrightarrow> Decode env (Body r) = Inl err \<Longrightarrow>
   snd (autodiscoverHandle env g w r) =
     http_Error w (''400 - bad request - parsing autodiscover request: '' @ err)
       StatusMethodNotAllowed"
  by (simp add: autodiscoverHandle_def Let_def)



lemma autodiscoverHandle_unknown_imap:
  "Method r = ''POST'' \<Longrightarrow> Decode env (Body r) = Inr req \<Longrightarrow>
   ParseAddress env (EmailAddress (Request req)) = Inr addr \<Longrightarrow>
   ClientConfigDomain env (smtp_Address.Domain addr) = Inr config \<Longrightarrow>
   tlsmode env (Endpoint.TLSMode (IMAP config)) = (s, c, Some e) \<Longrightarrow>
   snd (autodiscoverHandle env g w r) =
     http_Error w (''400 - bad request - '' @ e) StatusBadRequest"
  by (simp add: autodiscoverHandle_def Let_def)

lemma autodiscoverHandle_unknown_submission:
  "Method r = ''POST'' \<Longrightarrow> Decode env (Body r) = Inr req \<Longrightarrow>
   ParseAddress env (EmailAddress (Request req)) = Inr addr \<Longrightarrow>
   ClientConfigDomain env (smtp_Address.Domain addr) = Inr config \<Longrightarrow>
   tlsmode env (Endpoint.TLSMode (IMAP config)) = (imapSSL, imapEncryption, None) \<Longrightarrow>
   tlsmode env (Endpoint.TLSMode (Submission config)) = (s, c, Some e) \<Longrightarrow>
   snd (autodiscoverHandle env g w r) =
     http_Error w (''400 - bad request - '' @ e) StatusBadRequest"
  by (simp add: autodiscoverHandle_def Let_def)





subsection \<open>Splitting and replacing\<close>

lemma SplitFrom_comma:
  "SplitFrom acc s '','' \<noteq> [] \<and>
   hd (SplitFrom acc s '','') = rev acc @ takeWhile (\<lambda>c. c \<noteq> CHR '','') s"
  by (induction s arbitrary: acc) simp_all

lemma Split_comma:
  "\<exists>rest. Split s '','' = takeWhile (\<lambda>c. c \<noteq> CHR '','') s # rest"
  using SplitFrom_comma [of "[]" s] by (cases "SplitFrom [] s '',''") (simp_all add: Split_def)

lemma ReplaceAll_char:
  "ReplaceAll s [a] new = concat (map (\<lambda>c. if c = a then new else [c]) s)"
  by (induction s) simp_all

lemma sanitize_chars:
  "ReplaceAll (ReplaceAll s ''.'' ''-'') ''@'' ''-at-'' =
   concat (map (\<lambda>c. if c = CHR ''.'' then ''-'' else if c = CHR ''@'' then ''-at-'' else [c]) s)"
  unfolding ReplaceAll_char by (induction s) simp_all

subsection \<open>Facts about the sample environment\<close>

lemma httpsConfig_fields:
  "Endpoint.TLSMode (IMAP httpsConfig) = TLSModeNone"
  "Endpoint.TLSMode (Submission httpsConfig) = TLSModeSTARTTLS"
  "EnabledOnHTTPS (IMAP httpsConfig)"
  "EnabledOnHTTPS (Submission httpsConfig)"
  "Endpoint.Host (IMAP httpsConfig) = mailHost"
  "Endpoint.Host (Submission httpsConfig) = mailHost"
  "Endpoint.Port (IMAP httpsConfig) = 143"
  "Endpoint.Port (Submission httpsConfig) = 587"
  by (simp_all add: httpsConfig_def)

lemma sample_https_normalize:
  "autoconfNormalize sampleEnv newResponseWriter
     (sampleHTTP ''GET'' ''mail.example.org'' ''emailaddress'' ''user@https.example'' '''') =
     Inr (''user@https.example'', sampleDomain ''https.example'')"
  by (simp add: autoconfNormalize_def sampleHTTP_def sampleEnv_def Let_def)

lemma sample_https_config:
  "ClientConfigDomain sampleEnv (sampleDomain ''https.example'') = Inr httpsConfig"
  by (simp add: sampleEnv_def sampleDomain_def)

lemma brokenConfig_fields:
  "Endpoint.TLSMode (IMAP brokenConfig) = TLSModeOther 7"
  "Endpoint.TLSMode (Submission brokenConfig) = TLSModeSTARTTLS"
  by (simp_all add: brokenConfig_def)

lemma sample_broken_normalize:
  "autoconfNormalize sampleEnv newResponseWriter
     (sampleHTTP ''GET'' ''autoconfig.broken.example'' ''emailaddress'' '''' '''') =
     Inr (''%EMAILADDRESS%'', sampleDomain ''broken.example'')"
  by (simp add: autoconfNormalize_def sampleHTTP_def sampleEnv_def Let_def TrimPrefix_def
      sampleDomain_def)

lemma sample_broken_config:
  "ClientConfigDomain sampleEnv (sampleDomain ''broken.example'') = Inr brokenConfig"
  by (simp add: sampleEnv_def sampleDomain_def)

lemma sample_example_normalize:
  "autoconfNormalize sampleEnv newResponseWriter
     (sampleHTTP ''GET'' ''mail.example.org'' ''emailaddress'' ''user@example.org'' '''') =
     Inr (''user@example.org'', sampleDomain ''example.org'')"
  by (simp add: autoconfNormalize_def sampleHTTP_def sampleEnv_def Let_def)



lemma sample_broken_post:
  "Method (sampleHTTP ''POST'' ''autodiscover.broken.example'' '''' ''''
     (sampleBody ''user@broken.example'')) = ''POST''"
  "Decode sampleEnv (Body (sampleHTTP ''POST'' ''autodiscover.broken.example'' '''' ''''
     (sampleBody ''user@broken.example''))) =
     Inr (sampleRequest ''user@broken.example'')"
  by (simp_all add: sampleHTTP_def sampleEnv_def sampleBody_def)

lemma sample_broken_address:
  "ParseAddress sampleEnv (EmailAddress (Request (sampleRequest ''user@broken.example''))) =
     Inr \<lparr>smtp_Address.Domain = sampleDomain ''broken.example''\<rparr>"
  by (simp add: sampleEnv_def sampleRequest_def)

subsection \<open>The input normalizer\<close>

lemma TrimPrefix_append: "TrimPrefix (p @ rest) p = rest"
  by (simp add: TrimPrefix_def)

lemma TrimPrefix_absent: "(\<nexists>rest. s = p @ rest) \<Longrightarrow> TrimPrefix s p = s"
  by (metis TrimPrefix_def append_take_drop_id)

text \<open>
  Claim C4. With an empty form value "emailaddress" and a request host that parses as a
  domain, the first block of autoconfHandle yields the placeholder identity
  "%EMAILADDRESS%" and the domain of the host, where a leading "autoconfig." is removed from
  the ASCII form and from the Unicode form, each being left as it is when it does not start
  so. With a non-empty "emailaddress" that parses as an address, it yields that string as
  the identity and the domain of the address. When the host or the address does not parse,
  the handler returns at once with a plain-text reply of status 400.
\<close>

theorem autoconf_normalize:
  "(FormValue r ''emailaddress'' = '''' \<longrightarrow>
      (\<forall>d. ParseDomain env (http_Request.Host r) = Inr d \<longrightarrow>
         (\<exists>d'. autoconfNormalize env w r = Inr (''%EMAILADDRESS%'', d') \<and>
            (\<forall>rest. ASCII d = ''autoconfig.'' @ rest \<longrightarrow> ASCII d' = rest) \<and>
            ((\<nexists>rest. ASCII d = ''autoconfig.'' @ rest) \<longrightarrow> ASCII d' = ASCII d) \<and>
            (\<forall>rest. Unicode d = ''autoconfig.'' @ rest \<longrightarrow> Unicode d' = rest) \<and>
            ((\<nexists>rest. Unicode d = ''autoconfig.'' @ rest) \<longrightarrow> Unicode d' = Unicode d))) \<and>
      (\<forall>e. ParseDomain env (http_Request.Host r) = Inl e \<longrightarrow>
         (\<exists>w'. autoconfNormalize env w r = Inl w' \<and>
            snd (autoconfHandle env g w r) = w' \<and>
            (Status w = None \<longrightarrow> Status w' = Some 400) \<and>
            (\<exists>msg. Output w' = Output w @ [Text msg])))) \<and>
   (FormValue r ''emailaddress'' \<noteq> '''' \<longrightarrow>
      (\<forall>a. ParseAddress env (FormValue r ''emailaddress'') = Inr a \<longrightarrow>
         autoconfNormalize env w r = Inr (FormValue r ''emailaddress'', smtp_Address.Domain a)) \<and>
      (\<forall>e. ParseAddress env (FormValue r ''emailaddress'') = Inl e \<longrightarrow>
         (\<exists>w'. autoconfNormalize env w r = Inl w' \<and>
            snd (autoconfHandle env g w r) = w' \<and>
            (Status w = None \<longrightarrow> Status w' = Some 400) \<and>
            (\<exists>msg. Output w' = Output w @ [Text msg]))))"
proof (intro conjI impI allI)
  fix d
  assume e: "FormValue r ''emailaddress'' = ''''"
    and p: "ParseDomain env (http_Request.Host r) = Inr d"
  let ?d = "\<lparr>ASCII = TrimPrefix (ASCII d) ''autoconfig.'',
             Unicode = TrimPrefix (Unicode d) ''autoconfig.''\<rparr>"
  have n: "autoconfNormalize env w r = Inr (''%EMAILADDRESS%'', ?d)"
    using e p by (simp add: autoconfNormalize_def Let_def)
  have a1: "\<forall>rest. ASCII d = ''autoconfig.'' @ rest \<longrightarrow> ASCII ?d = rest"
    using TrimPrefix_append [of "''autoconfig.''"] by simp
  have a2: "(\<nexists>rest. ASCII d = ''autoconfig.'' @ rest) \<longrightarrow> ASCII ?d = ASCII d"
    using TrimPrefix_absent [of "ASCII d" "''autoconfig.''"] by simp
  have u1: "\<forall>rest. Unicode d = ''autoconfig.'' @ rest \<longrightarrow> Unicode ?d = rest"
    using TrimPrefix_append [of "''autoconfig.''"] by simp
  have u2: "(\<nexists>rest. Unicode d = ''autoconfig.'' @ rest) \<longrightarrow> Unicode ?d = Unicode d"
    using TrimPrefix_absent [of "Unicode d" "''autoconfig.''"] by simp
  show "\<exists>d'. autoconfNormalize env w r = Inr (''%EMAILADDRESS%'', d') \<and>
            (\<forall>rest. ASCII d = ''autoconfig.'' @ rest \<longrightarrow> ASCII d' = rest) \<and>
            ((\<nexists>rest. ASCII d = ''autoconfig.'' @ rest) \<longrightarrow> ASCII d' = ASCII d) \<and>
            (\<forall>rest. Unicode d = ''autoconfig.'' @ rest \<longrightarrow> Unicode d' = rest) \<and>
            ((\<nexists>rest. Unicode d = ''autoconfig.'' @ rest) \<longrightarrow> Unicode d' = Unicode d)"
    using n a1 a2 u1 u2 by blast
next
  fix e
  assume e: "FormValue r ''emailaddress'' = ''''"
    and p: "ParseDomain env (http_Request.Host r) = Inl e"
  let ?w = "http_Error w (''400 - bad request - invalid domain: '' @ http_Request.Host r)
              StatusBadRequest"
  have n: "autoconfNormalize env w r = Inl ?w"
    using e p by (simp add: autoconfNormalize_def Let_def)
  show "\<exists>w'. autoconfNormalize env w r = Inl w' \<and> snd (autoconfHandle env g w r) = w' \<and>
          (Status w = None \<longrightarrow> Status w' = Some 400) \<and> (\<exists>msg. Output w' = Output w @ [Text msg])"
    using n autoconfHandle_early [OF n] Status_http_Error [of w] Output_http_Error [of w]
    by (simp add: StatusBadRequest_def)
next
  fix a
  assume "FormValue r ''emailaddress'' \<noteq> ''''"
    and "ParseAddress env (FormValue r ''emailaddress'') = Inr a"
  then show "autoconfNormalize env w r = Inr (FormValue r ''emailaddress'', smtp_Address.Domain a)"
    by (simp add: autoconfNormalize_def Let_def)
next
  fix e
  assume e: "FormValue r ''emailaddress'' \<noteq> ''''"
    and p: "ParseAddress env (FormValue r ''emailaddress'') = Inl e"
  let ?w = "http_Error w ''400 - bad request - invalid parameter emailaddress'' StatusBadRequest"
  have n: "autoconfNormalize env w r = Inl ?w"
    using e p by (simp add: autoconfNormalize_def Let_def)
  show "\<exists>w'. autoconfNormalize env w r = Inl w' \<and> snd (autoconfHandle env g w r) = w' \<and>
          (Status w = None \<longrightarrow> Status w' = Some 400) \<and> (\<exists>msg. Output w' = Output w @ [Text msg])"
    using n autoconfHandle_early [OF n] Status_http_Error [of w] Output_http_Error [of w]
    by (simp add: StatusBadRequest_def)
qed

theorem autoconf_normalize_witness:
  "FormValue (sampleHTTP ''GET'' ''autoconfig.example.org'' ''emailaddress'' '''' '''')
     ''emailaddress'' = '''' \<and>
   ParseDomain sampleEnv ''autoconfig.example.org'' =
     Inr \<lparr>ASCII = ''autoconfig.example.org'', Unicode = ''''\<rparr> \<and>
   autoconfNormalize sampleEnv newResponseWriter
     (sampleHTTP ''GET'' ''autoconfig.example.org'' ''emailaddress'' '''' '''') =
     Inr (''%EMAILADDRESS%'', \<lparr>ASCII = ''example.org'', Unicode = ''''\<rparr>) \<and>
   ParseDomain sampleEnv ''example.org'' = Inr \<lparr>ASCII = ''example.org'', Unicode = ''''\<rparr> \<and>
   autoconfNormalize sampleEnv newResponseWriter
     (sampleHTTP ''GET'' ''example.org'' ''emailaddress'' '''' '''') =
     Inr (''%EMAILADDRESS%'', \<lparr>ASCII = ''example.org'', Unicode = ''''\<rparr>) \<and>
   ParseDomain sampleEnv ''autoconfig.xn--bcher-kva.example'' =
     Inr \<lparr>ASCII = ''autoconfig.xn--bcher-kva.example'',
          Unicode = ''autoconfig.b'' @ [CHR 0xC3, CHR 0xBC] @ ''cher.example''\<rparr> \<and>
   autoconfNormalize sampleEnv newResponseWriter
     (sampleHTTP ''GET'' ''autoconfig.xn--bcher-kva.example'' ''emailaddress'' '''' '''') =
     Inr (''%EMAILADDRESS%'',
          \<lparr>ASCII = ''xn--bcher-kva.example'',
           Unicode = ''b'' @ [CHR 0xC3, CHR 0xBC] @ ''cher.example''\<rparr>) \<and>
   ParseDomain sampleEnv ''example.org.'' = Inl ''dns name has trailing dot'' \<and>
   Status (snd (autoconfHandle sampleEnv noGlobals newResponseWriter
     (sampleHTTP ''GET'' ''example.org.'' ''emailaddress'' '''' ''''))) = Some 400 \<and>
   ParseAddress sampleEnv ''user@example.org'' =
     Inr \<lparr>smtp_Address.Domain = \<lparr>ASCII = ''example.org'', Unicode = ''''\<rparr>\<rparr> \<and>
   autoconfNormalize sampleEnv newResponseWriter
     (sampleHTTP ''GET'' ''mail.example.org'' ''emailaddress'' ''user@example.org'' '''') =
     Inr (''user@example.org'', \<lparr>ASCII = ''example.org'', Unicode = ''''\<rparr>) \<and>
   ParseAddress sampleEnv ''nobody'' = Inl ''invalid address'' \<and>
   Status (snd (autoconfHandle sampleEnv noGlobals newResponseWriter
     (sampleHTTP ''GET'' ''mail.example.org'' ''emailaddress'' ''nobody'' ''''))) = Some 400"
proof -
  let ?r1 = "sampleHTTP ''GET'' ''autoconfig.example.org'' ''emailaddress'' '''' ''''"
  let ?r2 = "sampleHTTP ''GET'' ''example.org'' ''emailaddress'' '''' ''''"
  let ?r3 = "sampleHTTP ''GET'' ''example.org.'' ''emailaddress'' '''' ''''"
  let ?r4 = "sampleHTTP ''GET'' ''mail.example.org'' ''emailaddress'' ''user@example.org'' ''''"
  let ?r5 = "sampleHTTP ''GET'' ''mail.example.org'' ''emailaddress'' ''nobody'' ''''"
  let ?r6 = "sampleHTTP ''GET'' ''autoconfig.xn--bcher-kva.example'' ''emailaddress'' '''' ''''"
  let ?p1 = "\<lparr>ASCII = ''autoconfig.example.org'', Unicode = ''''\<rparr>"
  let ?p2 = "\<lparr>ASCII = ''example.org'', Unicode = ''''\<rparr>"
  let ?p6 = "\<lparr>ASCII = ''autoconfig.xn--bcher-kva.example'',
    Unicode = ''autoconfig.b'' @ [CHR 0xC3, CHR 0xBC] @ ''cher.example''\<rparr>"
  have e1: "FormValue ?r1 ''emailaddress'' = ''''"
    and h1: "http_Request.Host ?r1 = ''autoconfig.example.org''"
    and e2: "FormValue ?r2 ''emailaddress'' = ''''"
    and h2: "http_Request.Host ?r2 = ''example.org''"
    and e3: "FormValue ?r3 ''emailaddress'' = ''''"
    and h3: "http_Request.Host ?r3 = ''example.org.''"
    and e4: "FormValue ?r4 ''emailaddress'' = ''user@example.org''"
    and e5: "FormValue ?r5 ''emailaddress'' = ''nobody''"
    and e6: "FormValue ?r6 ''emailaddress'' = ''''"
    and h6: "http_Request.Host ?r6 = ''autoconfig.xn--bcher-kva.example''"
    by (simp_all add: sampleHTTP_def)
  have p1: "ParseDomain sampleEnv ''autoconfig.example.org'' = Inr ?p1"
    and p2: "ParseDomain sampleEnv ''example.org'' = Inr ?p2"
    and p3: "ParseDomain sampleEnv ''example.org.'' = Inl ''dns name has trailing dot''"
    and p4: "ParseAddress sampleEnv ''user@example.org'' = Inr \<lparr>smtp_Address.Domain = ?p2\<rparr>"
    and p5: "ParseAddress sampleEnv ''nobody'' = Inl ''invalid address''"
    and p6: "ParseDomain sampleEnv ''autoconfig.xn--bcher-kva.example'' = Inr ?p6"
    by (simp_all add: sampleEnv_def sampleDomain_def)
  have s: "Status newResponseWriter = None" by (rule Status_newResponseWriter)
  from autoconf_normalize [of ?r1 sampleEnv newResponseWriter noGlobals] e1 h1 p1
  obtain d1 where n1: "autoconfNormalize sampleEnv newResponseWriter ?r1 =
      Inr (''%EMAILADDRESS%'', d1)"
    and a1: "\<forall>rest. ASCII ?p1 = ''autoconfig.'' @ rest \<longrightarrow> ASCII d1 = rest"
    and u1: "(\<nexists>rest. Unicode ?p1 = ''autoconfig.'' @ rest) \<longrightarrow> Unicode d1 = Unicode ?p1"
    by auto
  have "ASCII d1 = ''example.org''" "Unicode d1 = ''''"
    using a1 u1 by simp_all
  then have d1: "d1 = ?p2" by simp
  from autoconf_normalize [of ?r2 sampleEnv newResponseWriter noGlobals] e2 h2 p2
  obtain d2 where n2: "autoconfNormalize sampleEnv newResponseWriter ?r2 =
      Inr (''%EMAILADDRESS%'', d2)"
    and a2: "(\<nexists>rest. ASCII ?p2 = ''autoconfig.'' @ rest) \<longrightarrow> ASCII d2 = ASCII ?p2"
    and u2: "(\<nexists>rest. Unicode ?p2 = ''autoconfig.'' @ rest) \<longrightarrow> Unicode d2 = Unicode ?p2"
    by auto
  have "ASCII d2 = ''example.org''" "Unicode d2 = ''''"
    using a2 u2 by simp_all
  then have d2: "d2 = ?p2" by simp
  from autoconf_normalize [of ?r6 sampleEnv newResponseWriter noGlobals] e6 h6 p6
  obtain d6 where n6: "autoconfNormalize sampleEnv newResponseWriter ?r6 =
      Inr (''%EMAILADDRESS%'', d6)"
    and a6: "\<forall>rest. ASCII ?p6 = ''autoconfig.'' @ rest \<longrightarrow> ASCII d6 = rest"
    and u6: "\<forall>rest. Unicode ?p6 = ''autoconfig.'' @ rest \<longrightarrow> Unicode d6 = rest"
    by auto
  have "ASCII d6 = ''xn--bcher-kva.example''"
    "Unicode d6 = ''b'' @ [CHR 0xC3, CHR 0xBC] @ ''cher.example''"
    using a6 u6 by simp_all
  then have d6: "d6 = \<lparr>ASCII = ''xn--bcher-kva.example'',
      Unicode = ''b'' @ [CHR 0xC3, CHR 0xBC] @ ''cher.example''\<rparr>"
    by simp
  from autoconf_normalize [of ?r3 sampleEnv newResponseWriter noGlobals] e3 h3 p3 s
  have n3: "Status (snd (autoconfHandle sampleEnv noGlobals newResponseWriter ?r3)) = Some 400"
    by auto
  from autoconf_normalize [of ?r4 sampleEnv newResponseWriter noGlobals] e4 p4
  have n4: "autoconfNormalize sampleEnv newResponseWriter ?r4 = Inr (''user@example.org'', ?p2)"
    by simp
  from autoconf_normalize [of ?r5 sampleEnv newResponseWriter noGlobals] e5 p5 s
  have n5: "Status (snd (autoconfHandle sampleEnv noGlobals newResponseWriter ?r5)) = Some 400"
    by auto
  show ?thesis
    using e1 p1 n1 d1 p2 n2 d2 p6 n6 d6 p3 n3 p4 n4 p5 n5 by simp
qed

subsection \<open>The server lists of the autoconfig document\<close>

text \<open>
  Claim C2. For every request whose domain resolves to a configuration with known TLS
  modes, autoconfHandle writes the XML header and one document. The list of outgoing
  servers of the document starts with the Submission endpoint (its host, port and mapped
  socket type); when the flag EnabledOnHTTPS of the Submission endpoint is set, one more
  entry follows, with the same host, port 443 and socket type "SSL"; when it is not set,
  nothing follows. The list of incoming servers is built from the IMAP endpoint in the
  same way.
\<close>

theorem autoconf_server_lists:
  assumes "autoconfNormalize env w r = Inr (email, domain)"
    and "ClientConfigDomain env domain = Inr config"
    and "Endpoint.TLSMode (IMAP config) \<in> {TLSModeImmediate, TLSModeSTARTTLS, TLSModeNone}"
    and "Endpoint.TLSMode (Submission config) \<in> {TLSModeImmediate, TLSModeSTARTTLS, TLSModeNone}"
  shows "\<exists>doc.
    Output (snd (autoconfHandle env g w r)) = Output w @ [Text xml_Header, AutoconfigXML doc] \<and>
    OutgoingServers (EmailProvider doc) =
      \<lparr>outgoingServer.Type = ''smtp'',
       outgoingServer.Hostname = ASCII (Endpoint.Host (Submission config)),
       outgoingServer.Port = Endpoint.Port (Submission config),
       outgoingServer.SocketType = fst (socketType env (Endpoint.TLSMode (Submission config))),
       outgoingServer.Username = email,
       outgoingServer.Authentication = ''password-encrypted''\<rparr> #
      (if EnabledOnHTTPS (Submission config)
       then [\<lparr>outgoingServer.Type = ''smtp'',
              outgoingServer.Hostname = ASCII (Endpoint.Host (Submission config)),
              outgoingServer.Port = 443,
              outgoingServer.SocketType = ''SSL'',
              outgoingServer.Username = email,
              outgoingServer.Authentication = ''password-encrypted''\<rparr>]
       else []) \<and>
    IncomingServers (EmailProvider doc) =
      \<lparr>incomingServer.Type = ''imap'',
       incomingServer.Hostname = ASCII (Endpoint.Host (IMAP config)),
       incomingServer.Port = Endpoint.Port (IMAP config),
       incomingServer.SocketType = fst (socketType env (Endpoint.TLSMode (IMAP config))),
       incomingServer.Username = email,
       incomingServer.Authentication = ''password-encrypted''\<rparr> #
      (if EnabledOnHTTPS (IMAP config)
       then [\<lparr>incomingServer.Type = ''imap'',
              incomingServer.Hostname = ASCII (Endpoint.Host (IMAP config)),
              incomingServer.Port = 443,
              incomingServer.SocketType = ''SSL'',
              incomingServer.Username = email,
              incomingServer.Authentication = ''password-encrypted''\<rparr>]
       else [])"
proof -
  let ?i = "fst (socketType env (Endpoint.TLSMode (IMAP config)))"
  let ?s = "fst (socketType env (Endpoint.TLSMode (Submission config)))"
  let ?doc = "autoconfDocument env email domain config ?i ?s"
  have i: "socketType env (Endpoint.TLSMode (IMAP config)) = (?i, None)"
    using socketType_known [OF assms(3), of env] by (simp add: prod_eq_iff)
  have s: "socketType env (Endpoint.TLSMode (Submission config)) = (?s, None)"
    using socketType_known [OF assms(4), of env] by (simp add: prod_eq_iff)
  have "Output (snd (autoconfHandle env g w r)) = Output w @ [Text xml_Header, AutoconfigXML ?doc]"
    by (simp add: autoconfHandle_document [OF assms(1,2) i s] Output_Write Output_Set)
  then show ?thesis
    using OutgoingServers_autoconfDocument [of env email domain config ?i ?s]
      IncomingServers_autoconfDocument [of env email domain config ?i ?s]
    by blast
qed

theorem autoconf_server_lists_witness:
  "autoconfNormalize sampleEnv newResponseWriter
     (sampleHTTP ''GET'' ''mail.example.org'' ''emailaddress'' ''user@https.example'' '''') =
     Inr (''user@https.example'', sampleDomain ''https.example'') \<and>
   ClientConfigDomain sampleEnv (sampleDomain ''https.example'') = Inr httpsConfig \<and>
   Endpoint.TLSMode (IMAP httpsConfig) \<in> {TLSModeImmediate, TLSModeSTARTTLS, TLSModeNone} \<and>
   Endpoint.TLSMode (Submission httpsConfig) \<in> {TLSModeImmediate, TLSModeSTARTTLS, TLSModeNone} \<and>
   (\<exists>doc.
      Output (snd (autoconfHandle sampleEnv noGlobals newResponseWriter
        (sampleHTTP ''GET'' ''mail.example.org'' ''emailaddress'' ''user@https.example'' ''''))) =
        [Text xml_Header, AutoconfigXML doc] \<and>
      map outgoingServer.Port (OutgoingServers (EmailProvider doc)) = [587, 443] \<and>
      map outgoingServer.SocketType (OutgoingServers (EmailProvider doc)) = [''STARTTLS'', ''SSL''] \<and>
      map incomingServer.Port (IncomingServers (EmailProvider doc)) = [143, 443] \<and>
      map incomingServer.SocketType (IncomingServers (EmailProvider doc)) = [''plain'', ''SSL''])"
proof -
  have m: "Endpoint.TLSMode (IMAP httpsConfig) \<in> {TLSModeImmediate, TLSModeSTARTTLS, TLSModeNone}"
    "Endpoint.TLSMode (Submission httpsConfig) \<in> {TLSModeImmediate, TLSModeSTARTTLS, TLSModeNone}"
    by (simp_all add: httpsConfig_fields)
  from autoconf_server_lists [OF sample_https_normalize sample_https_config m, of noGlobals]
  obtain doc where o:
    "Output (snd (autoconfHandle sampleEnv noGlobals newResponseWriter
        (sampleHTTP ''GET'' ''mail.example.org'' ''emailaddress'' ''user@https.example'' ''''))) =
        [Text xml_Header, AutoconfigXML doc]"
    "map outgoingServer.Port (OutgoingServers (EmailProvider doc)) = [587, 443]"
    "map outgoingServer.SocketType (OutgoingServers (EmailProvider doc)) = [''STARTTLS'', ''SSL'']"
    "map incomingServer.Port (IncomingServers (EmailProvider doc)) = [143, 443]"
    "map incomingServer.SocketType (IncomingServers (EmailProvider doc)) = [''plain'', ''SSL'']"
    by (auto simp: httpsConfig_fields Output_newResponseWriter socketType_def)
  show ?thesis
    by (intro conjI exI [of _ doc]) (fact sample_https_normalize sample_https_config m o)+
qed

subsection \<open>The socket type of the entries on port 443\<close>

text \<open>
  Claim C10. The call \<open>socketType(admin.TLSModeImmediate)\<close>, whose error autoconfHandle
  discards, returns a nil error. In every document the handler writes, the entries after
  the first of the incoming and of the outgoing list (the entries for port 443) have the
  socket type "SSL", never the empty string.
\<close>

theorem autoconf_alternate_socketType:
  "snd (socketType env TLSModeImmediate) = None \<and>
   (\<forall>doc. AutoconfigXML doc \<in> set (Output (snd (autoconfHandle env g newResponseWriter r))) \<longrightarrow>
      (\<forall>e \<in> set (tl (IncomingServers (EmailProvider doc))).
         incomingServer.SocketType e = ''SSL'' \<and> incomingServer.SocketType e \<noteq> '''') \<and>
      (\<forall>e \<in> set (tl (OutgoingServers (EmailProvider doc))).
         outgoingServer.SocketType e = ''SSL'' \<and> outgoingServer.SocketType e \<noteq> ''''))"
proof (intro conjI allI impI)
  show "snd (socketType env TLSModeImmediate) = None"
    by (simp add: socketType_def)
next
  fix doc
  assume d: "AutoconfigXML doc \<in> set (Output (snd (autoconfHandle env g newResponseWriter r)))"
  from autoconfHandle_cases [of env g newResponseWriter r]
  have "\<exists>email domain config imapTLS submissionTLS.
      doc = autoconfDocument env email domain config imapTLS submissionTLS"
  proof (elim disjE exE conjE)
    fix msg
    assume "snd (autoconfHandle env g newResponseWriter r) =
      http_Error newResponseWriter msg StatusBadRequest"
    with d show ?thesis
      by (simp add: Output_http_Error Output_newResponseWriter)
  next
    fix email domain config imapTLS submissionTLS
    assume "snd (autoconfHandle env g newResponseWriter r) =
        Write (Write (Set newResponseWriter ''Content-Type'' ''application/xml; charset=utf-8'')
          (Text xml_Header))
          (AutoconfigXML (autoconfDocument env email domain config imapTLS submissionTLS))"
    with d have "doc = autoconfDocument env email domain config imapTLS submissionTLS"
      by (simp add: Output_Write Output_Set Output_newResponseWriter)
    then show ?thesis by blast
  qed
  then obtain email domain config imapTLS submissionTLS
    where doc: "doc = autoconfDocument env email domain config imapTLS submissionTLS"
    by blast
  show "\<forall>e \<in> set (tl (IncomingServers (EmailProvider doc))).
         incomingServer.SocketType e = ''SSL'' \<and> incomingServer.SocketType e \<noteq> ''''"
    unfolding doc IncomingServers_autoconfDocument by simp
  show "\<forall>e \<in> set (tl (OutgoingServers (EmailProvider doc))).
         outgoingServer.SocketType e = ''SSL'' \<and> outgoingServer.SocketType e \<noteq> ''''"
    unfolding doc OutgoingServers_autoconfDocument by simp
qed

theorem autoconf_alternate_socketType_witness:
  "\<exists>doc.
     AutoconfigXML doc \<in> set (Output (snd (autoconfHandle sampleEnv noGlobals newResponseWriter
       (sampleHTTP ''GET'' ''mail.example.org'' ''emailaddress'' ''user@https.example'' '''')))) \<and>
     map incomingServer.SocketType (tl (IncomingServers (EmailProvider doc))) = [''SSL''] \<and>
     map outgoingServer.SocketType (tl (OutgoingServers (EmailProvider doc))) = [''SSL'']"
proof -
  let ?r = "sampleHTTP ''GET'' ''mail.example.org'' ''emailaddress'' ''user@https.example'' ''''"
  let ?doc = "autoconfDocument sampleEnv ''user@https.example'' (sampleDomain ''https.example'')
    httpsConfig ''plain'' ''STARTTLS''"
  have i: "socketType sampleEnv (Endpoint.TLSMode (IMAP httpsConfig)) = (''plain'', None)"
    and s: "socketType sampleEnv (Endpoint.TLSMode (Submission httpsConfig)) = (''STARTTLS'', None)"
    by (simp_all add: httpsConfig_fields socketType_def)
  have mem: "AutoconfigXML ?doc \<in>
      set (Output (snd (autoconfHandle sampleEnv noGlobals newResponseWriter ?r)))"
    by (simp add: autoconfHandle_document [OF sample_https_normalize sample_https_config i s]
        Output_Write)
  from autoconf_alternate_socketType [of sampleEnv noGlobals ?r] mem
  have b: "\<forall>e \<in> set (tl (IncomingServers (EmailProvider ?doc))). incomingServer.SocketType e = ''SSL''"
    and c: "\<forall>e \<in> set (tl (OutgoingServers (EmailProvider ?doc))). outgoingServer.SocketType e = ''SSL''"
    by blast+
  obtain x where x: "tl (IncomingServers (EmailProvider ?doc)) = [x]"
    by (simp add: IncomingServers_autoconfDocument httpsConfig_fields)
  obtain y where y: "tl (OutgoingServers (EmailProvider ?doc)) = [y]"
    by (simp add: OutgoingServers_autoconfDocument httpsConfig_fields)
  have m1: "map incomingServer.SocketType (tl (IncomingServers (EmailProvider ?doc))) = [''SSL'']"
    using b unfolding x by simp
  have m2: "map outgoingServer.SocketType (tl (OutgoingServers (EmailProvider ?doc))) = [''SSL'']"
    using c unfolding y by simp
  show ?thesis
    by (intro exI [of _ ?doc] conjI) (fact mem m1 m2)+
qed

subsection \<open>The account block of the Autodiscover document\<close>



subsection \<open>A TLS mode outside the three constants\<close>

text \<open>
  Claim C5 says that the handlers answer with status 500 when a resolved endpoint has a TLS
  mode outside the three constants. They answer with status 400: the error of the mapper
  goes through the same check as the error of the configuration lookup. At the sample
  domain broken.example, whose IMAP endpoint has such a mode, both handlers answer 400 and
  neither answers 500.
\<close>

theorem unknown_mode_status_counterexample:
  "Endpoint.TLSMode (IMAP brokenConfig) \<notin> {TLSModeImmediate, TLSModeSTARTTLS, TLSModeNone} \<and>
   autoconfNormalize sampleEnv newResponseWriter
     (sampleHTTP ''GET'' ''autoconfig.broken.example'' ''emailaddress'' '''' '''') =
     Inr (''%EMAILADDRESS%'', sampleDomain ''broken.example'') \<and>
   ClientConfigDomain sampleEnv (sampleDomain ''broken.example'') = Inr brokenConfig \<and>
   Status (snd (autoconfHandle sampleEnv noGlobals newResponseWriter
     (sampleHTTP ''GET'' ''autoconfig.broken.example'' ''emailaddress'' '''' ''''))) = Some 400 \<and>
   Status (snd (autoconfHandle sampleEnv noGlobals newResponseWriter
     (sampleHTTP ''GET'' ''autoconfig.broken.example'' ''emailaddress'' '''' ''''))) \<noteq> Some 500 \<and>
   Method (sampleHTTP ''POST'' ''autodiscover.broken.example'' '''' ''''
     (sampleBody ''user@broken.example'')) = ''POST'' \<and>
   Decode sampleEnv (Body (sampleHTTP ''POST'' ''autodiscover.broken.example'' '''' ''''
     (sampleBody ''user@broken.example''))) = Inr (sampleRequest ''user@broken.example'') \<and>
   ParseAddress sampleEnv (EmailAddress (Request (sampleRequest ''user@broken.example''))) =
     Inr \<lparr>smtp_Address.Domain = sampleDomain ''broken.example''\<rparr> \<and>
   Status (snd (autodiscoverHandle sampleEnv noGlobals newResponseWriter
     (sampleHTTP ''POST'' ''autodiscover.broken.example'' '''' ''''
        (sampleBody ''user@broken.example'')))) = Some 400 \<and>
   Status (snd (autodiscoverHandle sampleEnv noGlobals newResponseWriter
     (sampleHTTP ''POST'' ''autodiscover.broken.example'' '''' ''''
        (sampleBody ''user@broken.example'')))) \<noteq> Some 500"
proof -
  let ?r = "sampleHTTP ''GET'' ''autoconfig.broken.example'' ''emailaddress'' '''' ''''"
  let ?r' = "sampleHTTP ''POST'' ''autodiscover.broken.example'' '''' ''''
    (sampleBody ''user@broken.example'')"
  have u: "Endpoint.TLSMode (IMAP brokenConfig) \<notin> {TLSModeImmediate, TLSModeSTARTTLS, TLSModeNone}"
    by (simp add: brokenConfig_fields)
  have c: "ClientConfigDomain sampleEnv
      (smtp_Address.Domain \<lparr>smtp_Address.Domain = sampleDomain ''broken.example''\<rparr>) =
      Inr brokenConfig"
    by (simp add: sample_broken_config)
  have s1: "Status (snd (autoconfHandle sampleEnv noGlobals newResponseWriter ?r)) = Some 400"
    by (simp add: autoconfHandle_unknown_imap [OF sample_broken_normalize sample_broken_config
          socketType_unknown [OF u]]
        Status_http_Error Status_newResponseWriter StatusBadRequest_def)
  have s2: "Status (snd (autodiscoverHandle sampleEnv noGlobals newResponseWriter ?r')) = Some 400"
    by (simp add: autodiscoverHandle_unknown_imap [OF sample_broken_post sample_broken_address c
          tlsmode_unknown [OF u]]
        Status_http_Error Status_newResponseWriter StatusBadRequest_def)
  have n1: "Status (snd (autoconfHandle sampleEnv noGlobals newResponseWriter ?r)) \<noteq> Some 500"
    unfolding s1 by simp
  have n2: "Status (snd (autodiscoverHandle sampleEnv noGlobals newResponseWriter ?r')) \<noteq> Some 500"
    unfolding s2 by simp
  show ?thesis
    by (intro conjI)
      (fact u sample_broken_normalize sample_broken_config s1 n1 sample_broken_post
        sample_broken_address s2 n2)+
qed

text \<open>
  Claim C5, amended. When the configuration of the request's domain has a TLS mode outside
  the three constants, for IMAP or for Submission, autoconfHandle and autodiscoverHandle
  answer with status 400 and write exactly one plain-text message and no document. The
  message is "400 - bad request - unknown tls mode " followed by what \<open>%v\<close> prints for the
  offending mode and a newline; the offending mode is that of IMAP when it is outside the
  three constants, and that of Submission otherwise.
\<close>

theorem unknown_mode_status:
  assumes "Endpoint.TLSMode (IMAP config) \<notin> {TLSModeImmediate, TLSModeSTARTTLS, TLSModeNone} \<or>
     Endpoint.TLSMode (Submission config) \<notin> {TLSModeImmediate, TLSModeSTARTTLS, TLSModeNone}"
  shows "(autoconfNormalize env newResponseWriter r = Inr (email, domain) \<and>
      ClientConfigDomain env domain = Inr config \<longrightarrow>
        Status (snd (autoconfHandle env g newResponseWriter r)) = Some 400 \<and>
        Output (snd (autoconfHandle env g newResponseWriter r)) =
          [Text (''400 - bad request - unknown tls mode '' @
             FormatTLSMode env
               (if Endpoint.TLSMode (IMAP config) \<in>
                     {TLSModeImmediate, TLSModeSTARTTLS, TLSModeNone}
                then Endpoint.TLSMode (Submission config)
                else Endpoint.TLSMode (IMAP config)) @
             ''\<newline>'')]) \<and>
     (Method r' = ''POST'' \<and> Decode env (Body r') = Inr req \<and>
      ParseAddress env (EmailAddress (Request req)) = Inr addr \<and>
      ClientConfigDomain env (smtp_Address.Domain addr) = Inr config \<longrightarrow>
        Status (snd (autodiscoverHandle env g newResponseWriter r')) = Some 400 \<and>
        Output (snd (autodiscoverHandle env g newResponseWriter r')) =
          [Text (''400 - bad request - unknown tls mode '' @
             FormatTLSMode env
               (if Endpoint.TLSMode (IMAP config) \<in>
                     {TLSModeImmediate, TLSModeSTARTTLS, TLSModeNone}
                then Endpoint.TLSMode (Submission config)
                else Endpoint.TLSMode (IMAP config)) @
             ''\<newline>'')])"
proof (intro conjI impI; elim conjE)
  let ?K = "{TLSModeImmediate, TLSModeSTARTTLS, TLSModeNone}"
  let ?m = "if Endpoint.TLSMode (IMAP config) \<in> ?K
    then Endpoint.TLSMode (Submission config) else Endpoint.TLSMode (IMAP config)"
  let ?e = "''unknown tls mode '' @ FormatTLSMode env ?m"
  assume n: "autoconfNormalize env newResponseWriter r = Inr (email, domain)"
    and c: "ClientConfigDomain env domain = Inr config"
  have w: "snd (autoconfHandle env g newResponseWriter r) =
      http_Error newResponseWriter (''400 - bad request - '' @ ?e) StatusBadRequest"
  proof (cases "Endpoint.TLSMode (IMAP config) \<in> ?K")
    case False
    from autoconfHandle_unknown_imap [OF n c socketType_unknown [OF False]] False
    show ?thesis by simp
  next
    case True
    with assms have u: "Endpoint.TLSMode (Submission config) \<notin> ?K"
      by blast
    have i: "socketType env (Endpoint.TLSMode (IMAP config)) =
        (fst (socketType env (Endpoint.TLSMode (IMAP config))), None)"
      using socketType_known [OF True, of env] by (simp add: prod_eq_iff)
    from autoconfHandle_unknown_submission [OF n c i socketType_unknown [OF u]] True
    show ?thesis by simp
  qed
  show "Status (snd (autoconfHandle env g newResponseWriter r)) = Some 400"
    unfolding w by (simp add: Status_http_Error Status_newResponseWriter StatusBadRequest_def)
  show "Output (snd (autoconfHandle env g newResponseWriter r)) =
      [Text (''400 - bad request - unknown tls mode '' @ FormatTLSMode env ?m @ ''\<newline>'')]"
    unfolding w by (simp add: Output_http_Error Output_newResponseWriter)
next
  let ?K = "{TLSModeImmediate, TLSModeSTARTTLS, TLSModeNone}"
  let ?m = "if Endpoint.TLSMode (IMAP config) \<in> ?K
    then Endpoint.TLSMode (Submission config) else Endpoint.TLSMode (IMAP config)"
  let ?e = "''unknown tls mode '' @ FormatTLSMode env ?m"
  assume m: "Method r' = ''POST''"
    and d: "Decode env (Body r') = Inr req"
    and a: "ParseAddress env (EmailAddress (Request req)) = Inr addr"
    and c: "ClientConfigDomain env (smtp_Address.Domain addr) = Inr config"
  have w: "snd (autodiscoverHandle env g newResponseWriter r') =
      http_Error newResponseWriter (''400 - bad request - '' @ ?e) StatusBadRequest"
  proof (cases "Endpoint.TLSMode (IMAP config) \<in> ?K")
    case False
    from autodiscoverHandle_unknown_imap [OF m d a c tlsmode_unknown [OF False]] False
    show ?thesis by simp
  next
    case True
    with assms have u: "Endpoint.TLSMode (Submission config) \<notin> ?K"
      by blast
    have i: "tlsmode env (Endpoint.TLSMode (IMAP config)) =
        (fst (tlsmode env (Endpoint.TLSMode (IMAP config))),
         fst (snd (tlsmode env (Endpoint.TLSMode (IMAP config)))), None)"
      using tlsmode_known [OF True, of env] by (simp add: prod_eq_iff)
    from autodiscoverHandle_unknown_submission [OF m d a c i tlsmode_unknown [OF u]] True
    show ?thesis by simp
  qed
  show "Status (snd (autodiscoverHandle env g newResponseWriter r')) = Some 400"
    unfolding w by (simp add: Status_http_Error Status_newResponseWriter StatusBadRequest_def)
  show "Output (snd (autodiscoverHandle env g newResponseWriter r')) =
      [Text (''400 - bad request - unknown tls mode '' @ FormatTLSMode env ?m @ ''\<newline>'')]"
    unfolding w by (simp add: Output_http_Error Output_newResponseWriter)
qed

theorem unknown_mode_status_witness:
  "Endpoint.TLSMode (IMAP brokenConfig) \<notin> {TLSModeImmediate, TLSModeSTARTTLS, TLSModeNone} \<and>
   autoconfNormalize sampleEnv newResponseWriter
     (sampleHTTP ''GET'' ''autoconfig.broken.example'' ''emailaddress'' '''' '''') =
     Inr (''%EMAILADDRESS%'', sampleDomain ''broken.example'') \<and>
   ClientConfigDomain sampleEnv (sampleDomain ''broken.example'') = Inr brokenConfig \<and>
   Status (snd (autoconfHandle sampleEnv noGlobals newResponseWriter
     (sampleHTTP ''GET'' ''autoconfig.broken.example'' ''emailaddress'' '''' ''''))) = Some 400 \<and>
   Output (snd (autoconfHandle sampleEnv noGlobals newResponseWriter
     (sampleHTTP ''GET'' ''autoconfig.broken.example'' ''emailaddress'' '''' ''''))) =
     [Text ''400 - bad request - unknown tls mode 7\<newline>''] \<and>
   Method (sampleHTTP ''POST'' ''autodiscover.broken.example'' '''' ''''
     (sampleBody ''user@broken.example'')) = ''POST'' \<and>
   Decode sampleEnv (Body (sampleHTTP ''POST'' ''autodiscover.broken.example'' '''' ''''
     (sampleBody ''user@broken.example''))) = Inr (sampleRequest ''user@broken.example'') \<and>
   ParseAddress sampleEnv (EmailAddress (Request (sampleRequest ''user@broken.example''))) =
     Inr \<lparr>smtp_Address.Domain = sampleDomain ''broken.example''\<rparr> \<and>
   Status (snd (autodiscoverHandle sampleEnv noGlobals newResponseWriter
     (sampleHTTP ''POST'' ''autodiscover.broken.example'' '''' ''''
        (sampleBody ''user@broken.example'')))) = Some 400 \<and>
   Output (snd (autodiscoverHandle sampleEnv noGlobals newResponseWriter
     (sampleHTTP ''POST'' ''autodiscover.broken.example'' '''' ''''
        (sampleBody ''user@broken.example'')))) =
     [Text ''400 - bad request - unknown tls mode 7\<newline>'']"
proof -
  let ?r = "sampleHTTP ''GET'' ''autoconfig.broken.example'' ''emailaddress'' '''' ''''"
  let ?r' = "sampleHTTP ''POST'' ''autodiscover.broken.example'' '''' ''''
    (sampleBody ''user@broken.example'')"
  have u: "Endpoint.TLSMode (IMAP brokenConfig) \<notin> {TLSModeImmediate, TLSModeSTARTTLS, TLSModeNone}"
    by (simp add: brokenConfig_fields)
  then have h: "Endpoint.TLSMode (IMAP brokenConfig) \<notin>
        {TLSModeImmediate, TLSModeSTARTTLS, TLSModeNone} \<or>
      Endpoint.TLSMode (Submission brokenConfig) \<notin>
        {TLSModeImmediate, TLSModeSTARTTLS, TLSModeNone}"
    by (rule disjI1)
  have c: "ClientConfigDomain sampleEnv
      (smtp_Address.Domain \<lparr>smtp_Address.Domain = sampleDomain ''broken.example''\<rparr>) =
      Inr brokenConfig"
    by (simp add: sample_broken_config)
  have f: "FormatTLSMode sampleEnv (TLSModeOther 7) = ''7''"
    by (simp add: sampleEnv_def showNat.simps)
  note t = unknown_mode_status [OF h, of sampleEnv ?r "''%EMAILADDRESS%''"
      "sampleDomain ''broken.example''" noGlobals ?r' "sampleRequest ''user@broken.example''"
      "\<lparr>smtp_Address.Domain = sampleDomain ''broken.example''\<rparr>"]
  from t sample_broken_normalize sample_broken_config
  have "Status (snd (autoconfHandle sampleEnv noGlobals newResponseWriter ?r)) = Some 400 \<and>
    Output (snd (autoconfHandle sampleEnv noGlobals newResponseWriter ?r)) =
      [Text (''400 - bad request - unknown tls mode '' @
         FormatTLSMode sampleEnv
           (if Endpoint.TLSMode (IMAP brokenConfig) \<in>
                 {TLSModeImmediate, TLSModeSTARTTLS, TLSModeNone}
            then Endpoint.TLSMode (Submission brokenConfig)
            else Endpoint.TLSMode (IMAP brokenConfig)) @
         ''\<newline>'')]"
    by blast
  then have s1: "Status (snd (autoconfHandle sampleEnv noGlobals newResponseWriter ?r)) = Some 400"
    and o1: "Output (snd (autoconfHandle sampleEnv noGlobals newResponseWriter ?r)) =
      [Text ''400 - bad request - unknown tls mode 7\<newline>'']"
    by (simp_all add: brokenConfig_fields f)
  from t sample_broken_post sample_broken_address c
  have "Status (snd (autodiscoverHandle sampleEnv noGlobals newResponseWriter ?r')) = Some 400 \<and>
    Output (snd (autodiscoverHandle sampleEnv noGlobals newResponseWriter ?r')) =
      [Text (''400 - bad request - unknown tls mode '' @
         FormatTLSMode sampleEnv
           (if Endpoint.TLSMode (IMAP brokenConfig) \<in>
                 {TLSModeImmediate, TLSModeSTARTTLS, TLSModeNone}
            then Endpoint.TLSMode (Submission brokenConfig)
            else Endpoint.TLSMode (IMAP brokenConfig)) @
         ''\<newline>'')]"
    by blast
  then have s2: "Status (snd (autodiscoverHandle sampleEnv noGlobals newResponseWriter ?r')) =
      Some 400"
    and o2: "Output (snd (autodiscoverHandle sampleEnv noGlobals newResponseWriter ?r')) =
      [Text ''400 - bad request - unknown tls mode 7\<newline>'']"
    by (simp_all add: brokenConfig_fields f)
  show ?thesis
    by (intro conjI)
      (fact u sample_broken_normalize sample_broken_config s1 o1 sample_broken_post
        sample_broken_address s2 o2)+
qed

subsection \<open>A request body that does not decode\<close>

text \<open>
  Claim C6. A POST to the Autodiscover handler whose body does not decode should be
  answered with status 400. At the sample request below, whose body is a document cut
  short, the handler writes a message that starts "400 - bad request - parsing
  autodiscover request:" and sends it with status 405: the call of http.Error for this
  case passes http.StatusMethodNotAllowed.
\<close>

theorem autodiscover_bad_body_status:
  "Method (sampleHTTP ''POST'' ''autodiscover.example.org'' '''' '''' ''<Autodiscover'') = ''POST'' \<and>
   Decode sampleEnv (Body (sampleHTTP ''POST'' ''autodiscover.example.org'' '''' ''''
     ''<Autodiscover'')) = Inl ''XML syntax error on line 1: unexpected EOF'' \<and>
   Status (snd (autodiscoverHandle sampleEnv noGlobals newResponseWriter
     (sampleHTTP ''POST'' ''autodiscover.example.org'' '''' '''' ''<Autodiscover''))) = Some 405 \<and>
   Output (snd (autodiscoverHandle sampleEnv noGlobals newResponseWriter
     (sampleHTTP ''POST'' ''autodiscover.example.org'' '''' '''' ''<Autodiscover''))) =
     [Text (''400 - bad request - parsing autodiscover request: '' @
        ''XML syntax error on line 1: unexpected EOF\<newline>'')]"
proof -
  have m: "Method (sampleHTTP ''POST'' ''autodiscover.example.org'' '''' '''' ''<Autodiscover'') =
      ''POST''"
    by (simp add: sampleHTTP_def)
  have d: "Decode sampleEnv (Body (sampleHTTP ''POST'' ''autodiscover.example.org'' '''' ''''
     ''<Autodiscover'')) = Inl ''XML syntax error on line 1: unexpected EOF''"
    by (simp add: sampleHTTP_def sampleEnv_def sampleBody_def)
  show ?thesis
    by (simp add: m d autodiscoverHandle_bad_body [OF m d] Status_http_Error
        Status_newResponseWriter Output_http_Error Output_newResponseWriter
        StatusMethodNotAllowed_def)
qed

subsection \<open>The method check of autodiscoverHandle\<close>

text \<open>
  Claim C7. For a method other than POST, autodiscoverHandle answers with status 405 and
  the message "405 - method not allowed - post required", and it returns before the body
  is decoded: the count of decoding calls is unchanged, and the result is the same for
  every body and every decoder.
\<close>

theorem autodiscover_method:
  assumes "Method r \<noteq> ''POST''"
  shows "Status (snd (autodiscoverHandle env g newResponseWriter r)) = Some 405 \<and>
    Output (snd (autodiscoverHandle env g newResponseWriter r)) =
      [Text ''405 - method not allowed - post required\<newline>''] \<and>
    bodyDecodes (fst (autodiscoverHandle env g newResponseWriter r)) = bodyDecodes g \<and>
    (\<forall>d b. autodiscoverHandle (env\<lparr>Decode := d\<rparr>) g newResponseWriter (r\<lparr>Body := b\<rparr>) =
       autodiscoverHandle env g newResponseWriter r)"
proof (intro conjI allI)
  show "Status (snd (autodiscoverHandle env g newResponseWriter r)) = Some 405"
    by (simp add: autodiscoverHandle_not_post [OF assms] Status_http_Error
        Status_newResponseWriter StatusMethodNotAllowed_def)
  show "Output (snd (autodiscoverHandle env g newResponseWriter r)) =
      [Text ''405 - method not allowed - post required\<newline>'']"
    by (simp add: autodiscoverHandle_not_post [OF assms] Output_http_Error
        Output_newResponseWriter)
  show "bodyDecodes (fst (autodiscoverHandle env g newResponseWriter r)) = bodyDecodes g"
    using assms by (simp add: autodiscoverHandle_fst)
next
  fix d b
  have m: "Method (r\<lparr>Body := b\<rparr>) \<noteq> ''POST''"
    using assms by simp
  show "autodiscoverHandle (env\<lparr>Decode := d\<rparr>) g newResponseWriter (r\<lparr>Body := b\<rparr>) =
       autodiscoverHandle env g newResponseWriter r"
    using assms
    by (simp add: prod_eq_iff autodiscoverHandle_fst autodiscoverHandle_not_post [OF assms]
        autodiscoverHandle_not_post [OF m])
qed

theorem autodiscover_method_witness:
  "Method (sampleHTTP ''GET'' ''autodiscover.example.org'' '''' ''''
     (sampleBody ''user@example.org'')) \<noteq> ''POST'' \<and>
   Status (snd (autodiscoverHandle sampleEnv noGlobals newResponseWriter
     (sampleHTTP ''GET'' ''autodiscover.example.org'' '''' ''''
        (sampleBody ''user@example.org'')))) = Some 405 \<and>
   bodyDecodes (fst (autodiscoverHandle sampleEnv noGlobals newResponseWriter
     (sampleHTTP ''GET'' ''autodiscover.example.org'' '''' ''''
        (sampleBody ''user@example.org'')))) = 0"
proof -
  have m: "Method (sampleHTTP ''GET'' ''autodiscover.example.org'' '''' ''''
     (sampleBody ''user@example.org'')) \<noteq> ''POST''"
    by (simp add: sampleHTTP_def)
  from autodiscover_method [OF m, of sampleEnv noGlobals]
  show ?thesis using m by (simp add: noGlobals_def)
qed

subsection \<open>The label of the request counters\<close>

text \<open>
  Claim C9. Each handler increments its request counter once, on every return, and the
  increment should carry the domain of the request as the value of the label "domain". At
  the sample requests below, for the address user@example.org, the count at the label
  "example.org" stays 0 and the count at the empty label becomes 1: nothing assigns the
  variable \<open>addrDom\<close> that the deferred increment reads.
\<close>

theorem request_counter_label:
  "autoconfNormalize sampleEnv newResponseWriter
     (sampleHTTP ''GET'' ''mail.example.org'' ''emailaddress'' ''user@example.org'' '''') =
     Inr (''user@example.org'', sampleDomain ''example.org'') \<and>
   metricAutoconf (fst (autoconfHandle sampleEnv noGlobals newResponseWriter
     (sampleHTTP ''GET'' ''mail.example.org'' ''emailaddress'' ''user@example.org'' '''')))
     ''example.org'' = 0 \<and>
   metricAutoconf (fst (autoconfHandle sampleEnv noGlobals newResponseWriter
     (sampleHTTP ''GET'' ''mail.example.org'' ''emailaddress'' ''user@example.org'' '''')))
     '''' = 1 \<and>
   metricAutodiscover (fst (autodiscoverHandle sampleEnv noGlobals newResponseWriter
     (sampleHTTP ''POST'' ''autodiscover.example.org'' '''' ''''
        (sampleBody ''user@example.org'')))) ''example.org'' = 0 \<and>
   metricAutodiscover (fst (autodiscoverHandle sampleEnv noGlobals newResponseWriter
     (sampleHTTP ''POST'' ''autodiscover.example.org'' '''' ''''
        (sampleBody ''user@example.org'')))) '''' = 1"
  by (simp add: sample_example_normalize autoconfHandle_fst autodiscoverHandle_fst Inc_def
      noGlobals_def)

subsection \<open>mobileconfigHandle\<close>

text \<open>
  Splitting at "," never returns the empty list, so the index \<open>l[0]\<close> is in range and
  the handler does not panic.
\<close>

lemma mobileconfigHandle_no_panic: "mobileconfigHandle env w r \<noteq> Inl p"
proof -
  obtain rest where "Split (FormValue r ''addresses'') '','' =
      takeWhile (\<lambda>c. c \<noteq> CHR '','') (FormValue r ''addresses'') # rest"
    using Split_comma by blast
  then show ?thesis
    by (simp add: mobileconfigHandle_def Let_def split: sum.split option.split)
qed

text \<open>
  Claim C8. The checks of mobileconfigHandle in their order: a method other than GET is
  answered with status 405; a GET with an empty form value "addresses" is answered with
  status 400 and one plain-text message, no profile bytes; and when MobileConfig succeeds,
  the profile bytes are written with status 200 and the header Content-Disposition is
  \<^verbatim>\<open>attachment; filename="email-account-<name>.mobileconfig"\<close>, where the name is
  the part of "addresses" before the first comma with every "." replaced by "-" and every
  "@" replaced by "-at-".
\<close>

theorem mobileconfig_responses:
  "(Method r \<noteq> ''GET'' \<longrightarrow>
      (\<exists>w'. mobileconfigHandle env newResponseWriter r = Inr w' \<and> Status w' = Some 405 \<and>
         (\<exists>msg. Output w' = [Text msg]))) \<and>
   (Method r = ''GET'' \<and> FormValue r ''addresses'' = '''' \<longrightarrow>
      (\<exists>w'. mobileconfigHandle env newResponseWriter r = Inr w' \<and> Status w' = Some 400 \<and>
         (\<exists>msg. Output w' = [Text msg]))) \<and>
   (\<forall>buf. Method r = ''GET'' \<and> FormValue r ''addresses'' \<noteq> '''' \<and>
      MobileConfig env (Split (FormValue r ''addresses'') '','') (FormValue r ''name'') = Inr buf \<longrightarrow>
      (\<exists>w'. mobileconfigHandle env newResponseWriter r = Inr w' \<and> Status w' = Some 200 \<and>
         Output w' = [Bytes buf] \<and>
         Header w' ''Content-Disposition'' =
           Some (''attachment; filename='' @ [CHR 0x22] @ ''email-account-'' @
             concat (map (\<lambda>c. if c = CHR ''.'' then ''-''
                               else if c = CHR ''@'' then ''-at-'' else [c])
               (takeWhile (\<lambda>c. c \<noteq> CHR '','') (FormValue r ''addresses''))) @
             ''.mobileconfig'' @ [CHR 0x22])))"
proof (intro conjI impI allI; (elim conjE)?)
  assume "Method r \<noteq> ''GET''"
  then have "mobileconfigHandle env newResponseWriter r =
      Inr (http_Error newResponseWriter ''405 - method not allowed - get required''
             StatusMethodNotAllowed)"
    by (simp add: mobileconfigHandle_def)
  then show "\<exists>w'. mobileconfigHandle env newResponseWriter r = Inr w' \<and> Status w' = Some 405 \<and>
         (\<exists>msg. Output w' = [Text msg])"
    by (simp add: Status_http_Error Status_newResponseWriter Output_http_Error
        Output_newResponseWriter StatusMethodNotAllowed_def)
next
  assume "Method r = ''GET''" and "FormValue r ''addresses'' = ''''"
  then have "mobileconfigHandle env newResponseWriter r =
      Inr (http_Error newResponseWriter
             (''400 - bad request - '' @ ''missing/empty field addresses'') StatusBadRequest)"
    by (simp add: mobileconfigHandle_def Let_def)
  then show "\<exists>w'. mobileconfigHandle env newResponseWriter r = Inr w' \<and> Status w' = Some 400 \<and>
         (\<exists>msg. Output w' = [Text msg])"
    by (simp add: Status_http_Error Status_newResponseWriter Output_http_Error
        Output_newResponseWriter StatusBadRequest_def)
next
  fix buf
  let ?a = "FormValue r ''addresses''"
  let ?first = "takeWhile (\<lambda>c. c \<noteq> CHR '','') ?a"
  let ?clean = "concat (map (\<lambda>c. if c = CHR ''.'' then ''-''
    else if c = CHR ''@'' then ''-at-'' else [c]) ?first)"
  let ?name = "''email-account-'' @ ?clean @ ''.mobileconfig''"
  let ?w = "Write (Set newResponseWriter ''Content-Disposition''
    (''attachment; filename='' @ [CHR 0x22] @ ?name @ [CHR 0x22])) (Bytes buf)"
  assume m: "Method r = ''GET''" and a: "?a \<noteq> ''''"
    and b: "MobileConfig env (Split ?a '','') (FormValue r ''name'') = Inr buf"
  obtain rest where l: "Split ?a '','' = ?first # rest"
    using Split_comma [of ?a] by blast
  have h: "mobileconfigHandle env newResponseWriter r = Inr ?w"
    using m a b [unfolded l] by (simp add: mobileconfigHandle_def Let_def l sanitize_chars)
  have s: "Status ?w = Some 200"
    by (simp add: Status_Write Status_Set Status_newResponseWriter)
  have o: "Output ?w = [Bytes buf]"
    by (simp add: Output_Write Output_Set Output_newResponseWriter)
  have d: "Header ?w ''Content-Disposition'' =
      Some (''attachment; filename='' @ [CHR 0x22] @ ?name @ [CHR 0x22])"
    by (simp add: Write_def WriteHeader_def Set_def Let_def newResponseWriter_def)
  have d': "Header ?w ''Content-Disposition'' =
      Some (''attachment; filename='' @ [CHR 0x22] @ ''email-account-'' @ ?clean @
        ''.mobileconfig'' @ [CHR 0x22])"
    using d by simp
  show "\<exists>w'. mobileconfigHandle env newResponseWriter r = Inr w' \<and> Status w' = Some 200 \<and>
         Output w' = [Bytes buf] \<and>
         Header w' ''Content-Disposition'' =
           Some (''attachment; filename='' @ [CHR 0x22] @ ''email-account-'' @
             concat (map (\<lambda>c. if c = CHR ''.'' then ''-''
                               else if c = CHR ''@'' then ''-at-'' else [c])
               (takeWhile (\<lambda>c. c \<noteq> CHR '','') (FormValue r ''addresses''))) @
             ''.mobileconfig'' @ [CHR 0x22])"
    by (intro exI [of _ ?w] conjI) (fact h s o d')+
qed

theorem mobileconfig_responses_witness:
  "Method (sampleHTTP ''POST'' ''mail.example.org'' ''addresses'' ''user@example.org'' '''') \<noteq> ''GET'' \<and>
   (\<exists>w'. mobileconfigHandle sampleEnv newResponseWriter
       (sampleHTTP ''POST'' ''mail.example.org'' ''addresses'' ''user@example.org'' '''') = Inr w' \<and>
      Status w' = Some 405) \<and>
   Method (sampleHTTP ''GET'' ''mail.example.org'' ''addresses'' '''' '''') = ''GET'' \<and>
   FormValue (sampleHTTP ''GET'' ''mail.example.org'' ''addresses'' '''' '''') ''addresses'' = '''' \<and>
   (\<exists>w'. mobileconfigHandle sampleEnv newResponseWriter
       (sampleHTTP ''GET'' ''mail.example.org'' ''addresses'' '''' '''') = Inr w' \<and>
      Status w' = Some 400 \<and> (\<exists>msg. Output w' = [Text msg])) \<and>
   Method (sampleHTTP ''GET'' ''mail.example.org'' ''addresses''
     ''user@example.org,info@example.org'' '''') = ''GET'' \<and>
   FormValue (sampleHTTP ''GET'' ''mail.example.org'' ''addresses''
     ''user@example.org,info@example.org'' '''') ''addresses'' \<noteq> '''' \<and>
   MobileConfig sampleEnv
     (Split (FormValue (sampleHTTP ''GET'' ''mail.example.org'' ''addresses''
        ''user@example.org,info@example.org'' '''') ''addresses'') '','')
     (FormValue (sampleHTTP ''GET'' ''mail.example.org'' ''addresses''
        ''user@example.org,info@example.org'' '''') ''name'') = Inr ''profile'' \<and>
   (\<exists>w'. mobileconfigHandle sampleEnv newResponseWriter
       (sampleHTTP ''GET'' ''mail.example.org'' ''addresses''
          ''user@example.org,info@example.org'' '''') = Inr w' \<and>
      Status w' = Some 200 \<and> Output w' = [Bytes ''profile''] \<and>
      Header w' ''Content-Disposition'' =
        Some (''attachment; filename='' @ [CHR 0x22] @
          ''email-account-user-at-example-org.mobileconfig'' @ [CHR 0x22]))"
proof -
  let ?r1 = "sampleHTTP ''POST'' ''mail.example.org'' ''addresses'' ''user@example.org'' ''''"
  let ?r2 = "sampleHTTP ''GET'' ''mail.example.org'' ''addresses'' '''' ''''"
  let ?r3 = "sampleHTTP ''GET'' ''mail.example.org'' ''addresses''
    ''user@example.org,info@example.org'' ''''"
  have m1: "Method ?r1 \<noteq> ''GET''"
    and m2: "Method ?r2 = ''GET''" and a2: "FormValue ?r2 ''addresses'' = ''''"
    and m3: "Method ?r3 = ''GET''"
    and a3: "FormValue ?r3 ''addresses'' = ''user@example.org,info@example.org''"
    and n3: "FormValue ?r3 ''name'' = ''''"
    by (simp_all add: sampleHTTP_def)
  have a3': "FormValue ?r3 ''addresses'' \<noteq> ''''"
    unfolding a3 by simp
  have sp: "Split ''user@example.org,info@example.org'' '','' =
      [''user@example.org'', ''info@example.org'']"
    by (simp add: Split_def)
  have b3: "MobileConfig sampleEnv (Split (FormValue ?r3 ''addresses'') '','')
      (FormValue ?r3 ''name'') = Inr ''profile''"
    unfolding a3 n3 sp by (simp add: sampleEnv_def)
  from mobileconfig_responses [of ?r1 sampleEnv] m1
  have c1: "\<exists>w'. mobileconfigHandle sampleEnv newResponseWriter ?r1 = Inr w' \<and>
      Status w' = Some 405"
    by blast
  from mobileconfig_responses [of ?r2 sampleEnv] m2 a2
  have c2: "\<exists>w'. mobileconfigHandle sampleEnv newResponseWriter ?r2 = Inr w' \<and>
      Status w' = Some 400 \<and> (\<exists>msg. Output w' = [Text msg])"
    by blast
  from mobileconfig_responses [of ?r3 sampleEnv] m3 a3' b3
  have "\<exists>w'. mobileconfigHandle sampleEnv newResponseWriter ?r3 = Inr w' \<and>
      Status w' = Some 200 \<and> Output w' = [Bytes ''profile''] \<and>
      Header w' ''Content-Disposition'' =
        Some (''attachment; filename='' @ [CHR 0x22] @ ''email-account-'' @
          concat (map (\<lambda>c. if c = CHR ''.'' then ''-''
                            else if c = CHR ''@'' then ''-at-'' else [c])
            (takeWhile (\<lambda>c. c \<noteq> CHR '','') (FormValue ?r3 ''addresses''))) @
          ''.mobileconfig'' @ [CHR 0x22])"
    by blast
  then have c3: "\<exists>w'. mobileconfigHandle sampleEnv newResponseWriter ?r3 = Inr w' \<and>
      Status w' = Some 200 \<and> Output w' = [Bytes ''profile''] \<and>
      Header w' ''Content-Disposition'' =
        Some (''attachment; filename='' @ [CHR 0x22] @
          ''email-account-user-at-example-org.mobileconfig'' @ [CHR 0x22])"
    unfolding a3 by simp
  show ?thesis
    by (intro conjI) (fact m1 c1 m2 a2 c2 m3 a3' b3 c3)+
qed

end
